theory Spec2Isabelle
  imports Complex_Main
begin

section \<open>Data model\<close>

text \<open>
  The session engine of the repository keeps message and summary text in files
  (\<^verbatim>\<open>fileStorage.js\<close>) and everything else in three PostgreSQL tables
  (\<^verbatim>\<open>database.js\<close>). Both stores, the clock read by \<^verbatim>\<open>Date.now()\<close> and the calls
  made to the generation backend are fields of one explicit state, \<open>world\<close>.

  Identifiers are UUIDs: opaque tokens, here natural numbers. A well-formed UUID is never
  the empty string, so the JavaScript truthiness tests on identifiers (\<^verbatim>\<open>if (beforeId)\<close>,
  \<^verbatim>\<open>data.id || uuidv4()\<close>) are tests against \<^verbatim>\<open>null\<close>. Timestamps are integer
  milliseconds. The value that a call of \<^verbatim>\<open>uuidv4()\<close> returns is a parameter of the
  operation that makes the call. The clock stands still during one operation and moves
  between operations. Input and output failures of the disk and of the database connection
  are not modelled; the failures that are modelled are the constraint violations of the
  schema, a negative \<^verbatim>\<open>LIMIT\<close>, the \<^verbatim>\<open>TypeError\<close> of reading a property of
  \<^verbatim>\<open>null\<close> or \<^verbatim>\<open>undefined\<close>, and an error thrown by the backend.
\<close>

type_synonym uuid = nat
type_synonym json = string

datatype path = MessagePath uuid uuid | SummaryPath uuid uuid

datatype failure =
    CheckViolation
  | UniqueViolation
  | ForeignKeyViolation
  | NegativeLimit
  | TypeError
  | BackendError string

record session_row =
  sess_id :: uuid
  sess_title :: "string option"
  sess_created_at :: int
  sess_updated_at :: int
  sess_last_activity_at :: int
  sess_current_summary_id :: "uuid option"
  sess_metadata :: json

record message_row =
  msg_id :: uuid
  msg_session_id :: uuid
  msg_role :: string
  msg_file_path :: path
  msg_tokens :: nat
  msg_is_summarized :: bool
  msg_created_at :: int

record summary_row =
  sum_id :: uuid
  sum_session_id :: uuid
  sum_file_path :: path
  sum_tokens :: nat
  sum_covers_until_message_id :: "uuid option"
  sum_created_at :: int

text \<open>The three tables, each in insertion order.\<close>

record database =
  sessions :: "session_row list"
  messages :: "message_row list"
  summaries :: "summary_row list"

text \<open>The JSON documents written by \<^verbatim>\<open>saveMessage\<close> and \<^verbatim>\<open>saveSummary\<close>.\<close>

record message_file =
  mf_id :: uuid
  mf_session_id :: uuid
  mf_role :: string
  mf_content :: string
  mf_tool_used :: "string option"
  mf_sources :: "json option"
  mf_metadata :: "json option"
  mf_created_at :: int

record summary_file =
  sf_id :: uuid
  sf_session_id :: uuid
  sf_summary :: string
  sf_covered_message_ids :: "uuid list"
  sf_tokens :: nat
  sf_created_at :: int

text \<open>
  The directory tree \<^verbatim>\<open>{session_id}/messages/{id}.json\<close> and
  \<^verbatim>\<open>{session_id}/summaries/{id}.json\<close>: two maps keyed by (session id, id).
\<close>

record file_store =
  message_files :: "uuid \<times> uuid \<Rightarrow> message_file option"
  summary_files :: "uuid \<times> uuid \<Rightarrow> summary_file option"

record chat_request =
  req_model :: string
  req_messages :: "(string \<times> string) list"
  req_max_tokens :: nat
  req_temperature :: rat

text \<open>
  A completion: the \<^verbatim>\<open>message.content\<close> of each entry of \<^verbatim>\<open>choices\<close>, and
  \<^verbatim>\<open>usage.total_tokens\<close> when \<^verbatim>\<open>usage\<close> is there.
\<close>

record chat_response =
  choices :: "string list"
  usage_total_tokens :: "nat option"

text \<open>
  The generation backend: for a request, a completion or the message of the error it
  throws. An operation calls it at most once.
\<close>

type_synonym backend = "chat_request \<Rightarrow> string + chat_response"

text \<open>
  \<open>history\<close> records the stores as they stand after every write that the code makes:
  one entry per statement sent through \<^verbatim>\<open>pool.query\<close> (no statement of
  \<^verbatim>\<open>database.js\<close> runs inside \<^verbatim>\<open>BEGIN\<close>/\<^verbatim>\<open>COMMIT\<close>, so each one commits on its
  own) and one per \<^verbatim>\<open>fs.writeFile\<close>. These are the states another reader can see.
\<close>

record world =
  db :: database
  files :: file_store
  clock :: int
  backend_calls :: "chat_request list"
  history :: "(database \<times> file_store) list"

text \<open>\<^verbatim>\<open>config/database.js\<close>, the \<^verbatim>\<open>session\<close> section.\<close>

record config =
  cacheExpiryMinutes :: int
  meaningfulMessageThreshold :: nat
  summaryModel :: string
  titleModel :: string
  defaultPageSize :: nat

definition session_config :: config where
  "session_config =
     \<lparr> cacheExpiryMinutes = 5,
       meaningfulMessageThreshold = 5,
       summaryModel = ''gpt-4o-mini'',
       titleModel = ''gpt-4o-mini'',
       defaultPageSize = 4 \<rparr>"

definition Date_now :: "world \<Rightarrow> int" where
  "Date_now w = clock w"

definition commit :: "database \<Rightarrow> world \<Rightarrow> world" where
  "commit d w = w\<lparr> db := d, history := history w @ [(d, files w)] \<rparr>"

definition writeFile :: "file_store \<Rightarrow> world \<Rightarrow> world" where
  "writeFile f w = w\<lparr> files := f, history := history w @ [(db w, f)] \<rparr>"

section \<open>Metadata index: \<^verbatim>\<open>database.js\<close>\<close>

definition getSession :: "database \<Rightarrow> uuid \<Rightarrow> session_row option" where
  "getSession d sessionId = find (\<lambda>s. sess_id s = sessionId) (sessions d)"

text \<open>
  \<^verbatim>\<open>INSERT INTO sessions\<close>: the primary key rejects an id already in the table.
\<close>

definition createSession :: "uuid \<Rightarrow> string option \<Rightarrow> world \<Rightarrow> world \<times> (failure + session_row)" where
  "createSession fresh title w =
     (let now = Date_now w;
          row = \<lparr> sess_id = fresh, sess_title = title, sess_created_at = now,
                  sess_updated_at = now, sess_last_activity_at = now,
                  sess_current_summary_id = None, sess_metadata = ''{}'' \<rparr>
      in if fresh \<in> set (map sess_id (sessions (db w))) then (w, Inl UniqueViolation)
         else (commit ((db w)\<lparr> sessions := sessions (db w) @ [row] \<rparr>) w, Inr row))"

text \<open>
  The argument of \<^verbatim>\<open>updateSession\<close>: a field that is \<^verbatim>\<open>undefined\<close> is \<open>None\<close>;
  a title or summary id may also be given as \<^verbatim>\<open>null\<close> (\<open>Some None\<close>).
\<close>

record session_updates =
  upd_title :: "string option option"
  upd_currentSummaryId :: "uuid option option"
  upd_metadata :: "json option"
  upd_updateActivity :: "bool option"

definition apply_updates :: "session_updates \<Rightarrow> int \<Rightarrow> session_row \<Rightarrow> session_row" where
  "apply_updates u now s =
     (let s1 = (case upd_title u of None \<Rightarrow> s | Some t \<Rightarrow> s\<lparr> sess_title := t \<rparr>);
          s2 = (case upd_currentSummaryId u of None \<Rightarrow> s1
                | Some c \<Rightarrow> s1\<lparr> sess_current_summary_id := c \<rparr>);
          s3 = (case upd_metadata u of None \<Rightarrow> s2 | Some m \<Rightarrow> s2\<lparr> sess_metadata := m \<rparr>);
          s4 = s3\<lparr> sess_updated_at := now \<rparr>
      in if upd_updateActivity u \<noteq> Some False then s4\<lparr> sess_last_activity_at := now \<rparr>
         else s4)"

definition updateSession :: "uuid \<Rightarrow> session_updates \<Rightarrow> world \<Rightarrow> world" where
  "updateSession sessionId u w =
     commit ((db w)\<lparr> sessions :=
        map (\<lambda>s. if sess_id s = sessionId then apply_updates u (Date_now w) s else s)
            (sessions (db w)) \<rparr>) w"

text \<open>
  \<^verbatim>\<open>INSERT INTO messages\<close> under the constraints of the schema: the \<^verbatim>\<open>CHECK\<close> on
  \<open>role\<close>, the primary key, and the foreign key to \<open>sessions\<close>.
\<close>

definition insert_message :: "message_row \<Rightarrow> database \<Rightarrow> failure + database" where
  "insert_message row d =
     (if msg_role row \<notin> {''user'', ''assistant'', ''system''} then Inl CheckViolation
      else if msg_id row \<in> set (map msg_id (messages d)) then Inl UniqueViolation
      else if msg_session_id row \<notin> set (map sess_id (sessions d)) then Inl ForeignKeyViolation
      else Inr (d\<lparr> messages := messages d @ [row] \<rparr>))"

definition touch_session :: "int \<Rightarrow> uuid \<Rightarrow> database \<Rightarrow> database" where
  "touch_session now sessionId d =
     d\<lparr> sessions :=
        map (\<lambda>s. if sess_id s = sessionId
                 then s\<lparr> sess_last_activity_at := now, sess_updated_at := now \<rparr> else s)
            (sessions d) \<rparr>"

record message_data =
  md_id :: "uuid option"
  md_role :: string
  md_filePath :: path
  md_tokens :: nat

definition createMessage ::
  "uuid \<Rightarrow> uuid \<Rightarrow> message_data \<Rightarrow> world \<Rightarrow> world \<times> (failure + message_row)" where
  "createMessage fresh sessionId data w =
     (let mid = (case md_id data of Some i \<Rightarrow> i | None \<Rightarrow> fresh);
          now = Date_now w;
          row = \<lparr> msg_id = mid, msg_session_id = sessionId, msg_role = md_role data,
                  msg_file_path = md_filePath data, msg_tokens = md_tokens data,
                  msg_is_summarized = False, msg_created_at = now \<rparr>
      in case insert_message row (db w) of
           Inl e \<Rightarrow> (w, Inl e)
         | Inr d1 \<Rightarrow>
             (let w1 = commit d1 w;
                  w2 = commit (touch_session now sessionId (db w1)) w1
              in (w2, Inr row)))"

text \<open>
  \<^verbatim>\<open>ORDER BY created_at\<close>: PostgreSQL leaves the order of rows with equal
  timestamps open; here they stay in insertion order (\<open>sort_key\<close> is stable), and the
  descending order is the reverse of the ascending one. With a cursor the rows are those
  created strictly before the cursor's message; a cursor that names no message selects
  nothing, as the comparison with the empty subquery is \<^verbatim>\<open>NULL\<close>. PostgreSQL rejects
  a negative \<^verbatim>\<open>LIMIT\<close>.
\<close>

definition getMessages ::
  "database \<Rightarrow> uuid \<Rightarrow> int \<Rightarrow> uuid option \<Rightarrow> failure + message_row list" where
  "getMessages d sessionId limit beforeId =
     (let rows = filter (\<lambda>m. msg_session_id m = sessionId) (messages d);
          rows' = (case beforeId of
                     None \<Rightarrow> rows
                   | Some b \<Rightarrow>
                       (case find (\<lambda>m. msg_id m = b) (messages d) of
                          None \<Rightarrow> []
                        | Some c \<Rightarrow> filter (\<lambda>m. msg_created_at m < msg_created_at c) rows))
      in if limit < 0 then Inl NegativeLimit
         else Inr (rev (take (nat limit) (rev (sort_key msg_created_at rows')))))"

definition getUnsummarizedMessages :: "database \<Rightarrow> uuid \<Rightarrow> message_row list" where
  "getUnsummarizedMessages d sessionId =
     sort_key msg_created_at
       (filter (\<lambda>m. msg_session_id m = sessionId \<and> \<not> msg_is_summarized m) (messages d))"

definition markMessagesSummarized :: "uuid list \<Rightarrow> world \<Rightarrow> world" where
  "markMessagesSummarized messageIds w =
     (if length messageIds = 0 then w
      else commit ((db w)\<lparr> messages :=
             map (\<lambda>m. if msg_id m \<in> set messageIds then m\<lparr> msg_is_summarized := True \<rparr> else m)
                 (messages (db w)) \<rparr>) w)"

definition countMeaningfulMessages :: "database \<Rightarrow> uuid \<Rightarrow> nat" where
  "countMeaningfulMessages d sessionId =
     length (filter (\<lambda>m. msg_session_id m = sessionId \<and> msg_role m = ''assistant''
                          \<and> \<not> msg_is_summarized m) (messages d))"

definition insert_summary :: "summary_row \<Rightarrow> database \<Rightarrow> failure + database" where
  "insert_summary row d =
     (if sum_id row \<in> set (map sum_id (summaries d)) then Inl UniqueViolation
      else if sum_session_id row \<notin> set (map sess_id (sessions d)) then Inl ForeignKeyViolation
      else Inr (d\<lparr> summaries := summaries d @ [row] \<rparr>))"

definition repoint_session :: "uuid \<Rightarrow> int \<Rightarrow> uuid \<Rightarrow> database \<Rightarrow> database" where
  "repoint_session summaryId now sessionId d =
     d\<lparr> sessions :=
        map (\<lambda>s. if sess_id s = sessionId
                 then s\<lparr> sess_current_summary_id := Some summaryId, sess_updated_at := now \<rparr> else s)
            (sessions d) \<rparr>"

record summary_data =
  sd_filePath :: path
  sd_tokens :: nat
  sd_coversUntilMessageId :: "uuid option"

text \<open>
  \<^verbatim>\<open>createSummary\<close> draws the id of the row itself (\<open>fresh\<close>); it takes none from its
  caller.
\<close>

definition createSummary ::
  "uuid \<Rightarrow> uuid \<Rightarrow> summary_data \<Rightarrow> world \<Rightarrow> world \<times> (failure + summary_row)" where
  "createSummary fresh sessionId data w =
     (let now = Date_now w;
          row = \<lparr> sum_id = fresh, sum_session_id = sessionId, sum_file_path = sd_filePath data,
                  sum_tokens = sd_tokens data,
                  sum_covers_until_message_id = sd_coversUntilMessageId data,
                  sum_created_at = now \<rparr>
      in case insert_summary row (db w) of
           Inl e \<Rightarrow> (w, Inl e)
         | Inr d1 \<Rightarrow>
             (let w1 = commit d1 w;
                  w2 = commit (repoint_session fresh now sessionId (db w1)) w1
              in (w2, Inr row)))"

definition getCurrentSummary :: "database \<Rightarrow> uuid \<Rightarrow> summary_row option" where
  "getCurrentSummary d sessionId =
     (case getSession d sessionId of
        None \<Rightarrow> None
      | Some sess \<Rightarrow>
          (case sess_current_summary_id sess of
             None \<Rightarrow> None
           | Some c \<Rightarrow> find (\<lambda>s. sum_id s = c) (summaries d)))"

section \<open>Content store: \<^verbatim>\<open>fileStorage.js\<close>\<close>

text \<open>
  A file path is kept as the pair of ids it is built from, so the relative path stored in
  the database is the same value as the absolute one.
\<close>

definition getRelativePath :: "path \<Rightarrow> path" where
  "getRelativePath absolutePath = absolutePath"

record save_message_data =
  smd_role :: string
  smd_content :: string
  smd_toolUsed :: "string option"
  smd_sources :: "json option"
  smd_metadata :: "json option"
  smd_createdAt :: "int option"

text \<open>
  \<^verbatim>\<open>x || y\<close> on a string or a number that may be missing: \<open>y\<close> also replaces the empty
  string and zero.
\<close>

definition or_null :: "string option \<Rightarrow> string option" where
  "or_null x = (case x of None \<Rightarrow> None | Some t \<Rightarrow> if t = [] then None else Some t)"

definition or_now :: "int option \<Rightarrow> int \<Rightarrow> int" where
  "or_now x now = (case x of None \<Rightarrow> now | Some t \<Rightarrow> if t = 0 then now else t)"

definition saveMessage :: "uuid \<Rightarrow> uuid \<Rightarrow> save_message_data \<Rightarrow> world \<Rightarrow> world \<times> path" where
  "saveMessage sessionId messageId data w =
     (let content = \<lparr> mf_id = messageId, mf_session_id = sessionId, mf_role = smd_role data,
                      mf_content = smd_content data, mf_tool_used = or_null (smd_toolUsed data),
                      mf_sources = smd_sources data, mf_metadata = smd_metadata data,
                      mf_created_at = or_now (smd_createdAt data) (Date_now w) \<rparr>
      in (writeFile ((files w)\<lparr> message_files :=
                       (message_files (files w))((sessionId, messageId) \<mapsto> content) \<rparr>) w,
          MessagePath sessionId messageId))"

definition getMessage :: "file_store \<Rightarrow> uuid \<Rightarrow> uuid \<Rightarrow> message_file option" where
  "getMessage f sessionId messageId = message_files f (sessionId, messageId)"

record save_summary_data =
  ssd_summary :: string
  ssd_coveredMessageIds :: "uuid list"
  ssd_tokens :: nat
  ssd_createdAt :: "int option"

definition saveSummary :: "uuid \<Rightarrow> uuid \<Rightarrow> save_summary_data \<Rightarrow> world \<Rightarrow> world \<times> path" where
  "saveSummary sessionId summaryId data w =
     (let content = \<lparr> sf_id = summaryId, sf_session_id = sessionId,
                      sf_summary = ssd_summary data,
                      sf_covered_message_ids = ssd_coveredMessageIds data,
                      sf_tokens = ssd_tokens data,
                      sf_created_at = or_now (ssd_createdAt data) (Date_now w) \<rparr>
      in (writeFile ((files w)\<lparr> summary_files :=
                       (summary_files (files w))((sessionId, summaryId) \<mapsto> content) \<rparr>) w,
          SummaryPath sessionId summaryId))"

definition getSummary :: "file_store \<Rightarrow> uuid \<Rightarrow> uuid \<Rightarrow> summary_file option" where
  "getSummary f sessionId summaryId = summary_files f (sessionId, summaryId)"

section \<open>Session service: \<^verbatim>\<open>session.js\<close>\<close>

record message_metadata =
  mm_toolUsed :: "string option"
  mm_sources :: "json option"
  mm_extra :: "json option"

record added_message =
  am_id :: uuid
  am_role :: string
  am_content :: string
  am_tokens :: nat

text \<open>
  \<^verbatim>\<open>addMessage\<close>: the file first, then the row with the same id. \<open>messageId\<close> is the
  value of its \<^verbatim>\<open>uuidv4()\<close>.
\<close>

definition addMessage ::
  "uuid \<Rightarrow> uuid \<Rightarrow> string \<Rightarrow> string \<Rightarrow> message_metadata \<Rightarrow> world
     \<Rightarrow> world \<times> (failure + added_message)" where
  "addMessage messageId sessionId role content metadata w =
     (let tokens = (length content + 3) div 4;
          (w1, filePath) = saveMessage sessionId messageId
             \<lparr> smd_role = role, smd_content = content, smd_toolUsed = mm_toolUsed metadata,
               smd_sources = mm_sources metadata, smd_metadata = mm_extra metadata,
               smd_createdAt = Some (Date_now w) \<rparr> w
      in case createMessage messageId sessionId
                \<lparr> md_id = Some messageId, md_role = role,
                  md_filePath = getRelativePath filePath, md_tokens = tokens \<rparr> w1 of
           (w2, Inl e) \<Rightarrow> (w2, Inl e)
         | (w2, Inr ref) \<Rightarrow>
             (w2, Inr \<lparr> am_id = messageId, am_role = role, am_content = content,
                        am_tokens = tokens \<rparr>))"

record message_view =
  mv_id :: uuid
  mv_role :: string
  mv_content :: string
  mv_toolUsed :: "string option"
  mv_sources :: "json option"
  mv_createdAt :: int
  mv_isSummarized :: bool

text \<open>
  One element of the page: \<^verbatim>\<open>content?.role || ref.role\<close> and
  \<^verbatim>\<open>content?.content || ''\<close> fall back when the file is missing.
\<close>

definition load_view :: "file_store \<Rightarrow> uuid \<Rightarrow> message_row \<Rightarrow> message_view" where
  "load_view f sessionId ref =
     (let content = getMessage f sessionId (msg_id ref)
      in \<lparr> mv_id = msg_id ref,
           mv_role = (case content of None \<Rightarrow> msg_role ref
                      | Some c \<Rightarrow> if mf_role c = [] then msg_role ref else mf_role c),
           mv_content = (case content of None \<Rightarrow> [] | Some c \<Rightarrow> mf_content c),
           mv_toolUsed = (case content of None \<Rightarrow> None | Some c \<Rightarrow> mf_tool_used c),
           mv_sources = (case content of None \<Rightarrow> None | Some c \<Rightarrow> mf_sources c),
           mv_createdAt = msg_created_at ref,
           mv_isSummarized = msg_is_summarized ref \<rparr>)"

definition SessionService_getMessages ::
  "world \<Rightarrow> uuid \<Rightarrow> int \<Rightarrow> uuid option \<Rightarrow> failure + message_view list" where
  "SessionService_getMessages w sessionId limit beforeId =
     (case getMessages (db w) sessionId limit beforeId of
        Inl e \<Rightarrow> Inl e
      | Inr messageRefs \<Rightarrow> Inr (map (load_view (files w) sessionId) messageRefs))"

text \<open>
  \<^verbatim>\<open>updateTitle\<close>: the title comes from the request body and may be missing
  (\<open>None\<close>), \<^verbatim>\<open>null\<close> or a string.
\<close>

definition updateTitle :: "uuid \<Rightarrow> string option option \<Rightarrow> world \<Rightarrow> world" where
  "updateTitle sessionId title w =
     updateSession sessionId
       \<lparr> upd_title = title, upd_currentSummaryId = None, upd_metadata = None,
         upd_updateActivity = Some False \<rparr> w"

text \<open>
  The cleaning of a generated title: quotes removed, one final \<^verbatim>\<open>.\<close>, \<^verbatim>\<open>!\<close> or
  \<^verbatim>\<open>?\<close> removed, then \<^verbatim>\<open>trim()\<close> (here over the ASCII white space).
\<close>

definition is_space :: "char \<Rightarrow> bool" where
  "is_space c = (c \<in> {CHR 0x09, CHR 0x0A, CHR 0x0B, CHR 0x0C, CHR 0x0D, CHR 0x20})"

definition trim :: "string \<Rightarrow> string" where
  "trim s = rev (dropWhile is_space (rev (dropWhile is_space s)))"

definition clean_title :: "string \<Rightarrow> string" where
  "clean_title s =
     (let a = filter (\<lambda>c. c \<noteq> CHR 0x22 \<and> c \<noteq> CHR 0x27) s;
          b = (if a \<noteq> [] \<and> last a \<in> {CHR ''.'', CHR ''!'', CHR ''?''} then butlast a else a)
      in trim b)"

definition titleSystemPrompt :: string where
  "titleSystemPrompt =
     ''You are a title generator. Create a concise 3-6 word title that summarizes the user'' @
     [CHR 0x27] @ ''s question or topic. '' @ [CHR 0x0A] @
     ''Rules:'' @ [CHR 0x0A] @
     ''- Output ONLY the title, no quotes, no punctuation at the end'' @ [CHR 0x0A] @
     ''- Be descriptive but brief'' @ [CHR 0x0A] @
     ''- Focus on the main topic or intent'' @ [CHR 0x0A, CHR 0x0A] @
     ''Example inputs and outputs:'' @ [CHR 0x0A] @
     [CHR 0x22] @ ''What is 2+2?'' @ [CHR 0x22] @ '' '' @ [CHR 0xE2, CHR 0x86, CHR 0x92] @ '' '' @
     [CHR 0x22] @ ''Basic Math Question'' @ [CHR 0x22, CHR 0x0A] @
     [CHR 0x22] @ ''How do I learn Python?'' @ [CHR 0x22] @ '' '' @
     [CHR 0xE2, CHR 0x86, CHR 0x92] @ '' '' @
     [CHR 0x22] @ ''Learning Python Programming'' @ [CHR 0x22, CHR 0x0A] @
     [CHR 0x22] @ ''Tell me about the French Revolution'' @ [CHR 0x22] @ '' '' @
     [CHR 0xE2, CHR 0x86, CHR 0x92] @ '' '' @
     [CHR 0x22] @ ''French Revolution Overview'' @ [CHR 0x22]"

definition title_request :: "config \<Rightarrow> string \<Rightarrow> chat_request" where
  "title_request cfg firstContent =
     \<lparr> req_model = titleModel cfg,
       req_messages =
         [(''system'', titleSystemPrompt),
          (''user'', ''Create a title for this message: '' @ [CHR 0x22] @ take 200 firstContent
                     @ [CHR 0x22])],
       req_max_tokens = 20,
       req_temperature = 1 / 2 \<rparr>"

text \<open>
  \<^verbatim>\<open>generateTitle\<close>: everything from the backend call on is inside the
  \<^verbatim>\<open>try\<close>, whose handler returns \<^verbatim>\<open>null\<close>.
\<close>

definition generateTitle ::
  "config \<Rightarrow> backend \<Rightarrow> uuid \<Rightarrow> world \<Rightarrow> world \<times> (failure + string option)" where
  "generateTitle cfg openai sessionId w =
     (case SessionService_getMessages w sessionId 2 None of
        Inl e \<Rightarrow> (w, Inl e)
      | Inr msgs \<Rightarrow>
          if length msgs = 0 then (w, Inr None)
          else
            (case find (\<lambda>m. mv_role m = ''user'') msgs of
               None \<Rightarrow> (w, Inr None)
             | Some firstUserMessage \<Rightarrow>
                 (let req = title_request cfg (mv_content firstUserMessage);
                      w1 = w\<lparr> backend_calls := backend_calls w @ [req] \<rparr>
                  in case openai req of
                       Inl err \<Rightarrow> (w1, Inr None)
                     | Inr response \<Rightarrow>
                         (case choices response of
                            [] \<Rightarrow> (w1, Inr None)
                          | c # _ \<Rightarrow>
                              (let title = clean_title c;
                                   w2 = updateSession sessionId
                                          \<lparr> upd_title = Some (Some title),
                                            upd_currentSummaryId = None,
                                            upd_metadata = None,
                                            upd_updateActivity = Some False \<rparr> w1
                               in (w2, Inr (Some title)))))))"

section \<open>Summarizer service\<close>

record check_result =
  needsSummary :: bool
  reason :: string
  minutesSinceActivity :: "rat option"
  meaningfulCount :: "nat option"

text \<open>
  \<^verbatim>\<open>checkSummarizationNeeded\<close>. The elapsed minutes are the quotient of an integer
  number of milliseconds by 60000, here an exact rational. The code computes it in double
  precision; for timestamps below \<open>2\<^sup>5\<^sup>3\<close> the difference is exact, the quotient is
  correctly rounded and rounding is monotone, so its comparison with the integer
  \<^verbatim>\<open>cacheExpiryMinutes\<close> comes out as the exact one does.
\<close>

definition checkSummarizationNeeded :: "config \<Rightarrow> uuid \<Rightarrow> world \<Rightarrow> check_result" where
  "checkSummarizationNeeded cfg sessionId w =
     (case getSession (db w) sessionId of
        None \<Rightarrow> \<lparr> needsSummary = False, reason = ''session_not_found'',
                  minutesSinceActivity = None, meaningfulCount = None \<rparr>
      | Some session \<Rightarrow>
          (let now = Date_now w;
               lastActivity = sess_last_activity_at session;
               minutes = (of_int (now - lastActivity) :: rat) / (1000 * 60)
           in if minutes \<le> of_int (cacheExpiryMinutes cfg)
              then \<lparr> needsSummary = False, reason = ''cache_still_valid'',
                     minutesSinceActivity = None, meaningfulCount = None \<rparr>
              else
                (let cnt = countMeaningfulMessages (db w) sessionId
                 in if cnt < meaningfulMessageThreshold cfg
                    then \<lparr> needsSummary = False, reason = ''not_enough_messages'',
                           minutesSinceActivity = None, meaningfulCount = None \<rparr>
                    else \<lparr> needsSummary = True, reason = ''cache_expired_and_threshold_met'',
                           minutesSinceActivity = Some minutes,
                           meaningfulCount = Some cnt \<rparr>)))"

record message_content =
  mc_id :: uuid
  mc_role :: string
  mc_content :: string
  mc_createdAt :: int

text \<open>
  Loading the batch: \<^verbatim>\<open>content.role\<close> on a missing file is a \<^verbatim>\<open>TypeError\<close>, which
  rejects the whole \<^verbatim>\<open>Promise.all\<close>.
\<close>

primrec load_contents ::
  "file_store \<Rightarrow> uuid \<Rightarrow> message_row list \<Rightarrow> failure + message_content list" where
  "load_contents f sessionId [] = Inr []"
| "load_contents f sessionId (msg # rest) =
     (case getMessage f sessionId (msg_id msg) of
        None \<Rightarrow> Inl TypeError
      | Some content \<Rightarrow>
          (case load_contents f sessionId rest of
             Inl e \<Rightarrow> Inl e
           | Inr cs \<Rightarrow> Inr (\<lparr> mc_id = msg_id msg, mc_role = mf_role content,
                               mc_content = mf_content content,
                               mc_createdAt = msg_created_at msg \<rparr> # cs)))"

definition prompt_line :: "nat \<Rightarrow> nat \<times> message_content \<Rightarrow> string" where
  "prompt_line totalCount im =
     (let recencyWeight = (if int (fst im) \<ge> int totalCount - 3 then ''[RECENT]'' else []);
          role = (if mc_role (snd im) = ''user'' then ''User'' else ''Assistant'')
      in recencyWeight @ '' '' @ role @ '': '' @ mc_content (snd im) @ [CHR 0x0A, CHR 0x0A])"

definition buildSummaryPrompt :: "string option \<Rightarrow> message_content list \<Rightarrow> string" where
  "buildSummaryPrompt previousSummary msgs =
     (let header = (case or_null previousSummary of
                    Some p \<Rightarrow> ''## Previous Conversation Summary'' @ [CHR 0x0A] @ p
                              @ [CHR 0x0A, CHR 0x0A] @ ''## New Messages to Incorporate''
                              @ [CHR 0x0A]
                  | None \<Rightarrow> ''## Conversation to Summarize'' @ [CHR 0x0A]);
          totalCount = length msgs
      in header @ concat (map (prompt_line totalCount) (enumerate 0 msgs))
         @ [CHR 0x0A] @ ''Generate a comprehensive summary following the guidelines.'')"

definition getSummarizerSystemPrompt :: string where
  "getSummarizerSystemPrompt =
     ''You are a conversation summarizer. Create concise but comprehensive summaries.''
     @ [CHR 0x0A, CHR 0x0A] @
     ''## Output Format'' @ [CHR 0x0A] @
     ''Provide a summary with these sections:'' @ [CHR 0x0A, CHR 0x0A] @
     ''### Context'' @ [CHR 0x0A] @
     ''Brief description of what this conversation is about (1-2 sentences)''
     @ [CHR 0x0A, CHR 0x0A] @
     ''### Key Discussion Points'' @ [CHR 0x0A] @
     ''- Main topics discussed (bullet points)'' @ [CHR 0x0A] @
     ''- Important conclusions reached'' @ [CHR 0x0A, CHR 0x0A] @
     ''### User Instructions & Preferences'' @ [CHR 0x0A] @
     ''- Any specific instructions the user gave'' @ [CHR 0x0A] @
     ''- Preferences or constraints mentioned'' @ [CHR 0x0A] @
     ''- These should be preserved for context'' @ [CHR 0x0A, CHR 0x0A] @
     ''### Important Facts & Details'' @ [CHR 0x0A] @
     ''- Specific facts, numbers, or technical details mentioned'' @ [CHR 0x0A] @
     ''- Code snippets or examples if relevant (keep brief)'' @ [CHR 0x0A, CHR 0x0A] @
     ''## Guidelines'' @ [CHR 0x0A] @
     ''1. **Recency Weighting**: Give more detail to [RECENT] messages - they represent the current focus''
     @ [CHR 0x0A] @
     ''2. **Instruction Preservation**: User instructions should NEVER be lost'' @ [CHR 0x0A] @
     ''3. **Conciseness**: Keep under 500 words while preserving essential context''
     @ [CHR 0x0A] @
     ''4. **Actionable**: The summary should allow continuing the conversation seamlessly''
     @ [CHR 0x0A] @
     ''5. **No Opinions**: Just summarize, don'' @ [CHR 0x27] @ ''t add interpretation''"

definition summary_request :: "config \<Rightarrow> string \<Rightarrow> chat_request" where
  "summary_request cfg summaryPrompt =
     \<lparr> req_model = summaryModel cfg,
       req_messages = [(''system'', getSummarizerSystemPrompt), (''user'', summaryPrompt)],
       req_max_tokens = 1000,
       req_temperature = 3 / 10 \<rparr>"

record summary_result =
  sr_summary :: string
  sr_coveredMessages :: nat
  sr_tokens :: nat

text \<open>
  \<^verbatim>\<open>generateSummary\<close>. \<open>summaryId\<close> is the value of the \<^verbatim>\<open>uuidv4()\<close> under which
  the file is saved, \<open>rowId\<close> the one drawn inside \<^verbatim>\<open>createSummary\<close>. Reads come
  first, then the backend call, then the writes.
\<close>

definition generateSummary ::
  "config \<Rightarrow> backend \<Rightarrow> uuid \<Rightarrow> uuid \<Rightarrow> uuid \<Rightarrow> world
     \<Rightarrow> world \<times> (failure + summary_result option)" where
  "generateSummary cfg openai summaryId rowId sessionId w =
     (let currentSummary = getCurrentSummary (db w) sessionId;
          previousSummaryText =
            (case currentSummary of
               None \<Rightarrow> None
             | Some cs \<Rightarrow>
                 (case getSummary (files w) sessionId (sum_id cs) of
                    None \<Rightarrow> None
                  | Some summaryContent \<Rightarrow> Some (sf_summary summaryContent)));
          msgs = getUnsummarizedMessages (db w) sessionId
      in if length msgs = 0 then (w, Inr None)
         else
           (case load_contents (files w) sessionId msgs of
              Inl e \<Rightarrow> (w, Inl e)
            | Inr messageContents \<Rightarrow>
                (let req = summary_request cfg
                             (buildSummaryPrompt previousSummaryText messageContents);
                     w1 = w\<lparr> backend_calls := backend_calls w @ [req] \<rparr>
                 in case openai req of
                      Inl err \<Rightarrow> (w1, Inl (BackendError err))
                    | Inr response \<Rightarrow>
                        (case choices response of
                           [] \<Rightarrow> (w1, Inl TypeError)
                         | summaryText # _ \<Rightarrow>
                             (let summaryTokens =
                                    (case usage_total_tokens response of
                                       None \<Rightarrow> 0 | Some t \<Rightarrow> t);
                                  lastMessageId = msg_id (last msgs);
                                  (w2, filePath) = saveSummary sessionId summaryId
                                     \<lparr> ssd_summary = summaryText,
                                       ssd_coveredMessageIds = map msg_id msgs,
                                       ssd_tokens = summaryTokens,
                                       ssd_createdAt = Some (Date_now w1) \<rparr> w1
                              in case createSummary rowId sessionId
                                        \<lparr> sd_filePath = getRelativePath filePath,
                                          sd_tokens = summaryTokens,
                                          sd_coversUntilMessageId = Some lastMessageId \<rparr> w2 of
                                   (w3, Inl e) \<Rightarrow> (w3, Inl e)
                                 | (w3, Inr row) \<Rightarrow>
                                     (markMessagesSummarized (map msg_id msgs) w3,
                                      Inr (Some \<lparr> sr_summary = summaryText,
                                                  sr_coveredMessages = length msgs,
                                                  sr_tokens = summaryTokens \<rparr>)))))))"

record context_package =
  ctx_summary :: "string option"
  ctx_messages :: "(string \<times> string) list"
  hasSummary :: bool
  activeMessageCount :: nat

text \<open>The loop that fills \<^verbatim>\<open>activeMessages\<close>: a message without a file is passed over.\<close>

primrec active_messages :: "file_store \<Rightarrow> uuid \<Rightarrow> message_row list \<Rightarrow> (string \<times> string) list" where
  "active_messages f sessionId [] = []"
| "active_messages f sessionId (msg # rest) =
     (case getMessage f sessionId (msg_id msg) of
        None \<Rightarrow> active_messages f sessionId rest
      | Some content \<Rightarrow> (mf_role content, mf_content content) # active_messages f sessionId rest)"

definition getSessionContext ::
  "config \<Rightarrow> backend \<Rightarrow> uuid \<Rightarrow> uuid \<Rightarrow> uuid \<Rightarrow> world \<Rightarrow> world \<times> (failure + context_package)" where
  "getSessionContext cfg openai summaryId rowId sessionId w =
     (case (if needsSummary (checkSummarizationNeeded cfg sessionId w)
            then generateSummary cfg openai summaryId rowId sessionId w
            else (w, Inr None)) of
        (w', Inl e) \<Rightarrow> (w', Inl e)
      | (w', Inr _) \<Rightarrow>
          (let currentSummary = getCurrentSummary (db w') sessionId;
               summaryText =
                 (case currentSummary of
                    None \<Rightarrow> None
                  | Some cs \<Rightarrow>
                      (case getSummary (files w') sessionId (sum_id cs) of
                         None \<Rightarrow> None
                       | Some summaryContent \<Rightarrow> Some (sf_summary summaryContent)));
               unsummarizedMsgs = getUnsummarizedMessages (db w') sessionId;
               activeMessages = active_messages (files w') sessionId unsummarizedMsgs
           in (w', Inr \<lparr> ctx_summary = summaryText, ctx_messages = activeMessages,
                          hasSummary = (or_null summaryText \<noteq> None),
                          activeMessageCount = length activeMessages \<rparr>)))"

section \<open>Example states\<close>

text \<open>
  A session with id 7, created and last active at time 0, and message rows of that session
  together with the files that \<^verbatim>\<open>saveMessage\<close> writes for them.
\<close>

definition demo_session :: session_row where
  "demo_session = \<lparr> sess_id = 7, sess_title = None, sess_created_at = 0, sess_updated_at = 0,
                sess_last_activity_at = 0, sess_current_summary_id = None,
                sess_metadata = ''{}'' \<rparr>"

definition mk_row :: "uuid \<Rightarrow> string \<Rightarrow> int \<Rightarrow> message_row" where
  "mk_row i role t = \<lparr> msg_id = i, msg_session_id = 7, msg_role = role,
                       msg_file_path = MessagePath 7 i, msg_tokens = 1,
                       msg_is_summarized = False, msg_created_at = t \<rparr>"

definition mk_file :: "message_row \<Rightarrow> message_file" where
  "mk_file m = \<lparr> mf_id = msg_id m, mf_session_id = msg_session_id m, mf_role = msg_role m,
                 mf_content = ''text'', mf_tool_used = None, mf_sources = None,
                 mf_metadata = None, mf_created_at = msg_created_at m \<rparr>"

definition store_of :: "message_row list \<Rightarrow> file_store" where
  "store_of rows =
     \<lparr> message_files = map_of (map (\<lambda>m. ((msg_session_id m, msg_id m), mk_file m)) rows),
       summary_files = Map.empty \<rparr>"

definition mk_world :: "message_row list \<Rightarrow> file_store \<Rightarrow> int \<Rightarrow> world" where
  "mk_world rows f t =
     \<lparr> db = \<lparr> sessions = [demo_session], messages = rows, summaries = [] \<rparr>,
       files = f, clock = t, backend_calls = [], history = [] \<rparr>"

text \<open>Ten, and two, replies of the assistant, none of them summarized.\<close>

definition ten_replies :: "message_row list" where
  "ten_replies = map (\<lambda>i. mk_row (100 + i) ''assistant'' (int i)) [0..<10]"

definition two_replies :: "message_row list" where
  "two_replies = map (\<lambda>i. mk_row (100 + i) ''assistant'' (int i)) [0..<2]"

text \<open>A reply that a summary already covers, and one user turn with its reply.\<close>

definition summarized_row :: message_row where
  "summarized_row = (mk_row 100 ''assistant'' 5)\<lparr> msg_is_summarized := True \<rparr>"

definition one_turn :: "message_row list" where
  "one_turn = [mk_row 100 ''user'' 10, mk_row 101 ''assistant'' 20]"

text \<open>A backend whose every call throws, and one that answers every call.\<close>

definition backend_down :: backend where
  "backend_down req = Inl ''timeout''"

definition backend_up :: backend where
  "backend_up req = Inr \<lparr> choices = [''A summary.''], usage_total_tokens = Some 42 \<rparr>"

text \<open>
  A summarized reply followed by a new user message, and two turns of conversation.
\<close>

definition mixed_rows :: "message_row list" where
  "mixed_rows = [summarized_row, mk_row 101 ''user'' 10]"

definition four_rows :: "message_row list" where
  "four_rows = [mk_row 100 ''user'' 10, mk_row 101 ''assistant'' 20,
                mk_row 102 ''user'' 30, mk_row 103 ''assistant'' 40]"

text \<open>
  A message and a summary addressed to a session 99 that does not exist; a file store that
  holds the reply of \<open>one_turn\<close> but not the user's message, and one that holds nothing.
\<close>

definition new_message :: message_data where
  "new_message = \<lparr> md_id = Some 300, md_role = ''user'', md_filePath = MessagePath 99 300,
                    md_tokens = 1 \<rparr>"

definition new_summary :: summary_data where
  "new_summary = \<lparr> sd_filePath = SummaryPath 99 400, sd_tokens = 1,
                    sd_coversUntilMessageId = None \<rparr>"

definition reply_only_store :: file_store where
  "reply_only_store = store_of [mk_row 101 ''assistant'' 20]"

definition no_files :: file_store where
  "no_files = store_of []"

text \<open>
  The state that a successful summarization of \<open>one_turn\<close> leaves: file under id 1, row
  under id 2.
\<close>

definition after_summary :: world where
  "after_summary =
     fst (generateSummary session_config backend_up 1 2 7
            (mk_world one_turn (store_of one_turn) 900000))"

section \<open>Predicates of the specification\<close>

text \<open>
  The messages a page may draw from: those of the session, and with a cursor those created
  strictly before the message the cursor names.
\<close>

definition eligible :: "database \<Rightarrow> uuid \<Rightarrow> uuid option \<Rightarrow> message_row \<Rightarrow> bool" where
  "eligible d sessionId beforeId m =
     (msg_session_id m = sessionId \<and>
      (case beforeId of
         None \<Rightarrow> True
       | Some b \<Rightarrow>
           (case find (\<lambda>c. msg_id c = b) (messages d) of
              None \<Rightarrow> False
            | Some c \<Rightarrow> msg_created_at m < msg_created_at c)))"

definition keep_activity :: session_updates where
  "keep_activity = \<lparr> upd_title = Some (Some ''Manual''), upd_currentSummaryId = None,
                      upd_metadata = None, upd_updateActivity = Some False \<rparr>"

definition no_metadata :: message_metadata where
  "no_metadata = \<lparr> mm_toolUsed = None, mm_sources = None, mm_extra = None \<rparr>"

text \<open>
  The recovery invariant, on one state of the two stores. A message row has its file where
  the engine reads it, under the row's own id. A summary row has the file that its
  \<^verbatim>\<open>file_path\<close> points to: \<^verbatim>\<open>generateSummary\<close> saves the file under one id, and
  \<^verbatim>\<open>createSummary\<close> draws another for the row and stores the path of the file in it.
\<close>

definition content_at :: "file_store \<Rightarrow> path \<Rightarrow> bool" where
  "content_at f p =
     (case p of
        MessagePath s i \<Rightarrow> message_files f (s, i) \<noteq> None
      | SummaryPath s i \<Rightarrow> summary_files f (s, i) \<noteq> None)"

definition messages_have_content :: "database \<times> file_store \<Rightarrow> bool" where
  "messages_have_content s =
     (\<forall>m \<in> set (messages (fst s)).
         message_files (snd s) (msg_session_id m, msg_id m) \<noteq> None)"

definition summaries_have_content :: "database \<times> file_store \<Rightarrow> bool" where
  "summaries_have_content s =
     (\<forall>r \<in> set (summaries (fst s)). content_at (snd s) (sum_file_path r))"

text \<open>The row as the \<^verbatim>\<open>UPDATE\<close> of \<^verbatim>\<open>markMessagesSummarized\<close> leaves it.\<close>

definition mark :: "uuid list \<Rightarrow> message_row \<Rightarrow> message_row" where
  "mark ids m = (if msg_id m \<in> set ids then m\<lparr> msg_is_summarized := True \<rparr> else m)"

section \<open>Basic facts about the operations\<close>

lemma load_contents_error: "load_contents f sid ms = Inl e \<Longrightarrow> e = TypeError"
  by (induction ms arbitrary: e) (auto split: option.splits sum.splits)

lemma insert_summary_error:
  "insert_summary row d = Inl e \<Longrightarrow> e = UniqueViolation \<or> e = ForeignKeyViolation"
  by (auto simp: insert_summary_def split: if_splits)

lemma createSummary_error:
  "createSummary fresh sid data w = (w', Inl e) \<Longrightarrow>
     w' = w \<and> (e = UniqueViolation \<or> e = ForeignKeyViolation)"
  by (auto simp: createSummary_def Let_def split: sum.splits dest: insert_summary_error)

lemma unsummarized_one_turn:
  "getUnsummarizedMessages (db (mk_world one_turn f t)) 7 = one_turn"
  by (simp add: getUnsummarizedMessages_def mk_world_def one_turn_def mk_row_def)

lemma load_one_turn:
  "\<exists>cs. load_contents (store_of one_turn) 7 one_turn = Inr cs"
  by (simp add: one_turn_def store_of_def mk_row_def getMessage_def)

lemma set_getUnsummarizedMessages:
  "set (getUnsummarizedMessages d sid) =
     {m \<in> set (messages d). msg_session_id m = sid \<and> \<not> msg_is_summarized m}"
  by (auto simp: getUnsummarizedMessages_def)

lemma active_messages_eq:
  "active_messages f sid ms =
     map (\<lambda>m. (mf_role (the (getMessage f sid (msg_id m))),
                mf_content (the (getMessage f sid (msg_id m)))))
         (filter (\<lambda>m. getMessage f sid (msg_id m) \<noteq> None) ms)"
  by (induction ms) (auto split: option.splits)

lemma getSessionContext_messages:
  assumes "getSessionContext cfg openai u1 u2 sid w = (w', Inr ctx)"
  shows "ctx_messages ctx = active_messages (files w') sid (getUnsummarizedMessages (db w') sid)
         \<and> activeMessageCount ctx = length (ctx_messages ctx)"
  using assms
  by (auto simp: getSessionContext_def Let_def split: if_splits prod.splits sum.splits)

lemma find_map_update:
  assumes "\<And>s. sess_id (g s) = sess_id s"
  shows "find (\<lambda>s. sess_id s = sid) (map (\<lambda>s. if sess_id s = sid then g s else s) xs)
           = map_option g (find (\<lambda>s. sess_id s = sid) xs)"
  using assms by (induction xs) auto

lemma sess_id_apply_updates: "sess_id (apply_updates u now s) = sess_id s"
  by (simp add: apply_updates_def Let_def split: option.splits)

lemma getSession_updateSession:
  "getSession (db (updateSession sid u w)) sid
     = map_option (apply_updates u (clock w)) (getSession (db w) sid)"
  unfolding getSession_def updateSession_def commit_def Date_now_def
  by (simp add: find_map_update [where g = "apply_updates u (clock w)", OF sess_id_apply_updates])

section \<open>Cache-expiry gating\<close>

lemma minutes_le_iff:
  "((of_int x :: rat) / (1000 * 60) \<le> of_int c) = (x \<le> c * 60000)"
proof -
  have "((of_int x :: rat) / (1000 * 60) \<le> of_int c) = ((of_int x :: rat) \<le> of_int c * 60000)"
    by (simp add: field_simps)
  also have "\<dots> = ((of_int x :: rat) \<le> of_int (c * 60000))" by simp
  also have "\<dots> = (x \<le> c * 60000)" by (simp only: of_int_le_iff)
  finally show ?thesis .
qed

lemma fst_getSessionContext:
  "fst (getSessionContext cfg openai u1 u2 sid w) =
     (if needsSummary (checkSummarizationNeeded cfg sid w)
      then fst (generateSummary cfg openai u1 u2 sid w) else w)"
  by (simp add: getSessionContext_def Let_def split: prod.splits sum.splits)

text \<open>
  C1. With the repository's configuration (expiry 5 minutes, threshold 5), for a session
  that exists, \<^verbatim>\<open>checkSummarizationNeeded\<close> answers \<^verbatim>\<open>needsSummary\<close> exactly when more
  than 5 minutes (300000 ms) have passed since \<^verbatim>\<open>lastActivityAt\<close> and at least 5 messages
  of the session have role \<^verbatim>\<open>assistant\<close> and are not summarized; and
  \<^verbatim>\<open>getSessionContext\<close> changes the state as \<^verbatim>\<open>generateSummary\<close> does in that case, and
  not at all otherwise.
\<close>

theorem cache_expiry_gating:
  assumes "getSession (db w) sid = Some s"
  shows "(needsSummary (checkSummarizationNeeded session_config sid w) \<longleftrightarrow>
            5 * 60000 < clock w - sess_last_activity_at s \<and>
            5 \<le> length (filter (\<lambda>m. msg_session_id m = sid \<and> msg_role m = ''assistant''
                                      \<and> \<not> msg_is_summarized m) (messages (db w)))) \<and>
         fst (getSessionContext session_config openai u1 u2 sid w) =
           (if 5 * 60000 < clock w - sess_last_activity_at s \<and>
               5 \<le> length (filter (\<lambda>m. msg_session_id m = sid \<and> msg_role m = ''assistant''
                                      \<and> \<not> msg_is_summarized m) (messages (db w)))
            then fst (generateSummary session_config openai u1 u2 sid w) else w)"
proof -
  have a: "needsSummary (checkSummarizationNeeded session_config sid w) \<longleftrightarrow>
            5 * 60000 < clock w - sess_last_activity_at s \<and>
            5 \<le> length (filter (\<lambda>m. msg_session_id m = sid \<and> msg_role m = ''assistant''
                                      \<and> \<not> msg_is_summarized m) (messages (db w)))"
    using assms
    by (auto simp add: checkSummarizationNeeded_def session_config_def Let_def Date_now_def
        minutes_le_iff countMeaningfulMessages_def)
  show ?thesis
    using a by (simp add: fst_getSessionContext)
qed

theorem cache_expiry_gating_witness:
  "getSession (db (mk_world ten_replies (store_of ten_replies) 180000)) 7 = Some demo_session \<and>
   \<not> needsSummary (checkSummarizationNeeded session_config 7
        (mk_world ten_replies (store_of ten_replies) 180000)) \<and>
   needsSummary (checkSummarizationNeeded session_config 7
        (mk_world ten_replies (store_of ten_replies) 360000)) \<and>
   \<not> needsSummary (checkSummarizationNeeded session_config 7
        (mk_world two_replies (store_of two_replies) 360000))"
proof -
  have s: "\<And>rows f t. getSession (db (mk_world rows f t)) 7 = Some demo_session"
    by (simp add: getSession_def mk_world_def demo_session_def)
  have c10: "length (filter (\<lambda>m. msg_session_id m = 7 \<and> msg_role m = ''assistant''
                \<and> \<not> msg_is_summarized m) ten_replies) = 10"
    by (simp add: ten_replies_def mk_row_def upt_rec_numeral)
  have c2: "length (filter (\<lambda>m. msg_session_id m = 7 \<and> msg_role m = ''assistant''
                \<and> \<not> msg_is_summarized m) two_replies) = 2"
    by (simp add: two_replies_def mk_row_def upt_rec_numeral)
  have m: "\<And>rows f t. messages (db (mk_world rows f t)) = rows"
          "\<And>rows f t. clock (mk_world rows f t) = t"
    by (simp_all add: mk_world_def)
  show ?thesis
    using cache_expiry_gating [OF s, of ten_replies "store_of ten_replies" 180000, THEN conjunct1]
          cache_expiry_gating [OF s, of ten_replies "store_of ten_replies" 360000, THEN conjunct1]
          cache_expiry_gating [OF s, of two_replies "store_of two_replies" 360000, THEN conjunct1]
    by (simp add: s m c10 c2 demo_session_def)
qed

section \<open>The writes of a summarization\<close>

lemma insert_summary_result:
  "insert_summary row d = Inr d1 \<Longrightarrow>
     d1 = d\<lparr> summaries := summaries d @ [row] \<rparr> \<and>
     sum_id row \<notin> set (map sum_id (summaries d)) \<and>
     sum_session_id row \<in> set (map sess_id (sessions d))"
  by (auto simp: insert_summary_def split: if_splits)

lemma generateSummary_steps:
  assumes "generateSummary cfg openai summaryId rowId sid w = (w', Inr (Some r))"
  shows "\<exists>sf row.
           sum_id row = rowId \<and> sum_session_id row = sid \<and>
           sum_file_path row = SummaryPath sid summaryId \<and>
           getUnsummarizedMessages (db w) sid \<noteq> [] \<and>
           rowId \<notin> set (map sum_id (summaries (db w))) \<and>
           sid \<in> set (map sess_id (sessions (db w))) \<and>
           files w' = (files w)\<lparr> summary_files :=
                        (summary_files (files w))((sid, summaryId) \<mapsto> sf) \<rparr> \<and>
           db w' = (repoint_session rowId (clock w) sid
                      ((db w)\<lparr> summaries := summaries (db w) @ [row] \<rparr>))
                   \<lparr> messages := map (mark (map msg_id (getUnsummarizedMessages (db w) sid)))
                                     (messages (db w)) \<rparr> \<and>
           history w' = history w @
             [(db w, files w'),
              ((db w)\<lparr> summaries := summaries (db w) @ [row] \<rparr>, files w'),
              (repoint_session rowId (clock w) sid
                 ((db w)\<lparr> summaries := summaries (db w) @ [row] \<rparr>), files w'),
              (db w', files w')]"
proof -
  let ?msgs = "getUnsummarizedMessages (db w) sid"
  let ?prev = "case getCurrentSummary (db w) sid of None \<Rightarrow> None
               | Some cs \<Rightarrow> (case getSummary (files w) sid (sum_id cs) of None \<Rightarrow> None
                            | Some summaryContent \<Rightarrow> Some (sf_summary summaryContent))"
  from assms have ne: "?msgs \<noteq> []"
    by (auto simp: generateSummary_def Let_def)
  from assms ne obtain cs where cs: "load_contents (files w) sid ?msgs = Inr cs"
    by (auto simp: generateSummary_def Let_def split: sum.splits)
  define req where "req = summary_request cfg (buildSummaryPrompt ?prev cs)"
  from assms ne cs obtain response where resp: "openai req = Inr response"
    by (auto simp: generateSummary_def Let_def req_def split: sum.splits)
  from assms ne cs resp obtain answer others where ch: "choices response = answer # others"
    by (auto simp: generateSummary_def Let_def req_def split: sum.splits list.splits)
  define tokens where "tokens = (case usage_total_tokens response of None \<Rightarrow> 0 | Some t \<Rightarrow> t)"
  define sf where "sf = \<lparr> sf_id = summaryId, sf_session_id = sid, sf_summary = answer,
      sf_covered_message_ids = map msg_id ?msgs, sf_tokens = tokens,
      sf_created_at = or_now (Some (clock w)) (clock w) \<rparr>"
  define row where "row = \<lparr> sum_id = rowId, sum_session_id = sid,
      sum_file_path = SummaryPath sid summaryId, sum_tokens = tokens,
      sum_covers_until_message_id = Some (msg_id (last ?msgs)), sum_created_at = clock w \<rparr>"
  define w2 where "w2 = writeFile ((files w)\<lparr> summary_files :=
                          (summary_files (files w))((sid, summaryId) \<mapsto> sf) \<rparr>)
                        (w\<lparr> backend_calls := backend_calls w @ [req] \<rparr>)"
  have g: "generateSummary cfg openai summaryId rowId sid w =
             (case insert_summary row (db w) of
                Inl e \<Rightarrow> (w2, Inl e)
              | Inr d1 \<Rightarrow>
                  (markMessagesSummarized (map msg_id ?msgs)
                     (commit (repoint_session rowId (clock w) sid d1) (commit d1 w2)),
                   Inr (Some \<lparr> sr_summary = answer, sr_coveredMessages = length ?msgs,
                               sr_tokens = tokens \<rparr>)))"
    using ne cs resp ch
    by (simp add: generateSummary_def Let_def req_def [symmetric] saveSummary_def
        createSummary_def getRelativePath_def Date_now_def writeFile_def commit_def
        w2_def row_def sf_def tokens_def split: sum.splits)
  from assms g obtain d1 where ins: "insert_summary row (db w) = Inr d1"
    by (cases "insert_summary row (db w)") auto
  from insert_summary_result [OF ins]
  have d1: "d1 = (db w)\<lparr> summaries := summaries (db w) @ [row] \<rparr>"
    and fresh: "rowId \<notin> set (map sum_id (summaries (db w)))"
    and fk: "sid \<in> set (map sess_id (sessions (db w)))"
    by (simp_all add: row_def)
  from assms g ins
  have w': "w' = markMessagesSummarized (map msg_id ?msgs)
                   (commit (repoint_session rowId (clock w) sid d1) (commit d1 w2))"
    by simp
  have msgs_same: "messages (repoint_session rowId (clock w) sid d1) = messages (db w)"
    by (simp add: repoint_session_def d1)
  have "sum_id row = rowId \<and> sum_session_id row = sid \<and>
        sum_file_path row = SummaryPath sid summaryId \<and> ?msgs \<noteq> [] \<and>
        rowId \<notin> set (map sum_id (summaries (db w))) \<and>
        sid \<in> set (map sess_id (sessions (db w))) \<and>
        files w' = (files w)\<lparr> summary_files :=
                        (summary_files (files w))((sid, summaryId) \<mapsto> sf) \<rparr> \<and>
        db w' = (repoint_session rowId (clock w) sid
                      ((db w)\<lparr> summaries := summaries (db w) @ [row] \<rparr>))
                   \<lparr> messages := map (mark (map msg_id ?msgs)) (messages (db w)) \<rparr> \<and>
        history w' = history w @
             [(db w, files w'),
              ((db w)\<lparr> summaries := summaries (db w) @ [row] \<rparr>, files w'),
              (repoint_session rowId (clock w) sid
                 ((db w)\<lparr> summaries := summaries (db w) @ [row] \<rparr>), files w'),
              (db w', files w')]"
    using ne fresh fk msgs_same
    by (simp add: w' w2_def markMessagesSummarized_def commit_def writeFile_def d1
        mark_def [abs_def] row_def)
  then show ?thesis by blast
qed

lemma unsummarized_cong:
  "messages d = messages d' \<Longrightarrow> getUnsummarizedMessages d sid = getUnsummarizedMessages d' sid"
  by (simp add: getUnsummarizedMessages_def)

lemma getSession_cong:
  "sessions d = sessions d' \<Longrightarrow> getSession d sid = getSession d' sid"
  by (simp add: getSession_def)

lemma find_session_exists:
  "sid \<in> set (map sess_id xs) \<Longrightarrow> \<exists>s. find (\<lambda>s. sess_id s = sid) xs = Some s"
  by (induction xs) auto

lemma getSession_repoint:
  assumes "sid \<in> set (map sess_id (sessions d))"
  shows "map_option sess_current_summary_id (getSession (repoint_session rowId now sid d) sid)
           = Some (Some rowId)"
proof -
  obtain s where s: "find (\<lambda>s. sess_id s = sid) (sessions d) = Some s"
    using find_session_exists [OF assms] by blast
  show ?thesis
    unfolding getSession_def repoint_session_def
    by (simp add: s find_map_update
          [where g = "\<lambda>s. s\<lparr> sess_current_summary_id := Some rowId, sess_updated_at := now \<rparr>"])
qed

lemma all_marked:
  "getUnsummarizedMessages
     (d\<lparr> messages := map (mark (map msg_id (getUnsummarizedMessages d0 sid))) (messages d0) \<rparr>) sid
   = []"
proof -
  have "\<And>m. m \<in> set (messages d0) \<Longrightarrow> msg_session_id m = sid \<Longrightarrow>
             msg_is_summarized (mark (map msg_id (getUnsummarizedMessages d0 sid)) m)"
    by (auto simp: mark_def set_getUnsummarizedMessages)
  moreover have "\<And>ids m. msg_session_id (mark ids m) = msg_session_id m"
    by (simp add: mark_def)
  ultimately show ?thesis
    by (auto simp: getUnsummarizedMessages_def filter_empty_conv)
qed

lemma batch_marked:
  "m \<in> set (map (mark ids) ms) \<Longrightarrow> msg_id m \<in> set ids \<Longrightarrow> msg_is_summarized m"
  by (auto simp: mark_def split: if_splits)

lemma summary_one_turn:
  "snd (generateSummary session_config backend_up 1 2 7
          (mk_world one_turn (store_of one_turn) 900000))
     = Inr (Some \<lparr> sr_summary = ''A summary.'', sr_coveredMessages = 2, sr_tokens = 42 \<rparr>)"
proof -
  obtain cs where cs: "load_contents (store_of one_turn) 7 one_turn = Inr cs"
    using load_one_turn by blast
  have f: "files (mk_world one_turn (store_of one_turn) 900000) = store_of one_turn"
    by (simp add: mk_world_def)
  have i: "insert_summary row (db (mk_world one_turn (store_of one_turn) 900000))
             = Inr ((db (mk_world one_turn (store_of one_turn) 900000))\<lparr> summaries := [row] \<rparr>)"
    if "sum_session_id row = 7" for row
    using that by (simp add: insert_summary_def mk_world_def demo_session_def)
  show ?thesis
    by (simp add: generateSummary_def Let_def unsummarized_one_turn f cs backend_up_def
        saveSummary_def createSummary_def writeFile_def i)
       (simp add: one_turn_def)
qed

lemma run_one_turn:
  "generateSummary session_config backend_up 1 2 7 (mk_world one_turn (store_of one_turn) 900000)
     = (fst (generateSummary session_config backend_up 1 2 7
               (mk_world one_turn (store_of one_turn) 900000)),
        Inr (Some \<lparr> sr_summary = ''A summary.'', sr_coveredMessages = 2, sr_tokens = 42 \<rparr>))"
  using summary_one_turn by (metis prod.collapse)

text \<open>
  C2, as stated, fails. \<^verbatim>\<open>generateSummary\<close> sends the insert of the summary row, the
  update of the session and the update of the messages as three statements, each committed
  on its own. On the session with one user turn and its reply, the run leaves four states
  behind; in the second and in the third the summary row (id 2) is there while both
  messages are still unsummarized.
\<close>

theorem summary_visible_before_marks:
  "length (history (fst (generateSummary session_config backend_up 1 2 7
                      (mk_world one_turn (store_of one_turn) 900000)))) = 4 \<and>
   2 \<in> set (map sum_id (summaries (fst (history (fst (generateSummary session_config backend_up
                      1 2 7 (mk_world one_turn (store_of one_turn) 900000))) ! 1)))) \<and>
   getUnsummarizedMessages (fst (history (fst (generateSummary session_config backend_up
                      1 2 7 (mk_world one_turn (store_of one_turn) 900000))) ! 1)) 7 = one_turn \<and>
   2 \<in> set (map sum_id (summaries (fst (history (fst (generateSummary session_config backend_up
                      1 2 7 (mk_world one_turn (store_of one_turn) 900000))) ! 2)))) \<and>
   getUnsummarizedMessages (fst (history (fst (generateSummary session_config backend_up
                      1 2 7 (mk_world one_turn (store_of one_turn) 900000))) ! 2)) 7 = one_turn"
proof -
  let ?w = "mk_world one_turn (store_of one_turn) 900000"
  let ?w' = "fst (generateSummary session_config backend_up 1 2 7 ?w)"
  from generateSummary_steps [OF run_one_turn] obtain sf row where
    row: "sum_id row = 2"
    and h: "history ?w' = history ?w @
             [(db ?w, files ?w'),
              ((db ?w)\<lparr> summaries := summaries (db ?w) @ [row] \<rparr>, files ?w'),
              (repoint_session 2 (clock ?w) 7
                 ((db ?w)\<lparr> summaries := summaries (db ?w) @ [row] \<rparr>), files ?w'),
              (db ?w', files ?w')]"
    by blast
  have e: "history ?w = []" by (simp add: mk_world_def)
  have u1: "getUnsummarizedMessages ((db ?w)\<lparr> summaries := summaries (db ?w) @ [row] \<rparr>) 7
              = one_turn"
    using unsummarized_one_turn [of "store_of one_turn" 900000]
    by (simp add: getUnsummarizedMessages_def)
  have u2: "getUnsummarizedMessages (repoint_session 2 (clock ?w) 7
                 ((db ?w)\<lparr> summaries := summaries (db ?w) @ [row] \<rparr>)) 7 = one_turn"
    using unsummarized_one_turn [of "store_of one_turn" 900000]
    by (simp add: getUnsummarizedMessages_def repoint_session_def)
  have s2: "summaries (repoint_session 2 (clock ?w) 7
                 ((db ?w)\<lparr> summaries := summaries (db ?w) @ [row] \<rparr>))
              = summaries (db ?w) @ [row]"
    by (simp add: repoint_session_def)
  show ?thesis
    unfolding h e by (simp add: row u1 u2 s2)
qed

text \<open>
  C2, amended. A run of \<^verbatim>\<open>generateSummary\<close> that returns a result has written in four
  steps, each visible on its own: the summary file (database untouched), the summary row,
  the session's \<^verbatim>\<open>current_summary_id\<close>, the \<^verbatim>\<open>is_summarized\<close> flags. After the second
  and the third step the summary row exists while the whole batch is still unsummarized.
  In the final state the summary row exists, the session points to it, every message of the
  batch is marked and the session has no unsummarized message left.
\<close>

theorem summary_then_marks:
  assumes "generateSummary cfg openai summaryId rowId sid w = (w', Inr (Some r))"
  shows "\<exists>s0 s1 s2.
           history w' = history w @ [s0, s1, s2, (db w', files w')] \<and>
           getUnsummarizedMessages (db w) sid \<noteq> [] \<and>
           rowId \<notin> set (map sum_id (summaries (db w))) \<and>
           fst s0 = db w \<and> summary_files (snd s0) (sid, summaryId) \<noteq> None \<and>
           rowId \<in> set (map sum_id (summaries (fst s1))) \<and>
           getUnsummarizedMessages (fst s1) sid = getUnsummarizedMessages (db w) sid \<and>
           rowId \<in> set (map sum_id (summaries (fst s2))) \<and>
           map_option sess_current_summary_id (getSession (fst s2) sid) = Some (Some rowId) \<and>
           getUnsummarizedMessages (fst s2) sid = getUnsummarizedMessages (db w) sid \<and>
           rowId \<in> set (map sum_id (summaries (db w'))) \<and>
           map_option sess_current_summary_id (getSession (db w') sid) = Some (Some rowId) \<and>
           getUnsummarizedMessages (db w') sid = [] \<and>
           (\<forall>m \<in> set (messages (db w')).
               msg_id m \<in> set (map msg_id (getUnsummarizedMessages (db w) sid))
                 \<longrightarrow> msg_is_summarized m)"
proof -
  let ?ids = "map msg_id (getUnsummarizedMessages (db w) sid)"
  from generateSummary_steps [OF assms] obtain sf row where
    row: "sum_id row = rowId"
    and ne: "getUnsummarizedMessages (db w) sid \<noteq> []"
    and fresh: "rowId \<notin> set (map sum_id (summaries (db w)))"
    and fk: "sid \<in> set (map sess_id (sessions (db w)))"
    and f: "files w' = (files w)\<lparr> summary_files :=
                        (summary_files (files w))((sid, summaryId) \<mapsto> sf) \<rparr>"
    and d: "db w' = (repoint_session rowId (clock w) sid
                      ((db w)\<lparr> summaries := summaries (db w) @ [row] \<rparr>))
                   \<lparr> messages := map (mark ?ids) (messages (db w)) \<rparr>"
    and h: "history w' = history w @
             [(db w, files w'),
              ((db w)\<lparr> summaries := summaries (db w) @ [row] \<rparr>, files w'),
              (repoint_session rowId (clock w) sid
                 ((db w)\<lparr> summaries := summaries (db w) @ [row] \<rparr>), files w'),
              (db w', files w')]"
    by blast
  let ?d1 = "(db w)\<lparr> summaries := summaries (db w) @ [row] \<rparr>"
  let ?d2 = "repoint_session rowId (clock w) sid ?d1"
  have s0: "summary_files (files w') (sid, summaryId) \<noteq> None" by (simp add: f)
  have s1a: "rowId \<in> set (map sum_id (summaries ?d1))" by (simp add: row)
  have s1b: "getUnsummarizedMessages ?d1 sid = getUnsummarizedMessages (db w) sid"
    by (rule unsummarized_cong) simp
  have s2a: "rowId \<in> set (map sum_id (summaries ?d2))"
    by (simp add: repoint_session_def row)
  have fk1: "sid \<in> set (map sess_id (sessions ?d1))" using fk by simp
  have s2b: "map_option sess_current_summary_id (getSession ?d2 sid) = Some (Some rowId)"
    using fk1 by (rule getSession_repoint)
  have s2c: "getUnsummarizedMessages ?d2 sid = getUnsummarizedMessages (db w) sid"
    by (rule unsummarized_cong) (simp add: repoint_session_def)
  have s3a: "rowId \<in> set (map sum_id (summaries (db w')))"
    by (simp add: d repoint_session_def row)
  have "getSession (db w') sid = getSession ?d2 sid"
    by (rule getSession_cong) (simp add: d)
  with s2b have s3b: "map_option sess_current_summary_id (getSession (db w') sid)
                        = Some (Some rowId)"
    by simp
  have s3c: "getUnsummarizedMessages (db w') sid = []"
    unfolding d by (rule all_marked)
  have s3d: "\<forall>m \<in> set (messages (db w')). msg_id m \<in> set ?ids \<longrightarrow> msg_is_summarized m"
    unfolding d using batch_marked by auto
  show ?thesis
    apply (rule exI [where x = "(db w, files w')"])
    apply (rule exI [where x = "(?d1, files w')"])
    apply (rule exI [where x = "(?d2, files w')"])
    apply (simp only: fst_conv snd_conv)
    apply (intro conjI)
    apply (rule h) apply (rule ne) apply (rule fresh) apply (rule refl) apply (rule s0)
    apply (rule s1a) apply (rule s1b) apply (rule s2a) apply (rule s2b) apply (rule s2c)
    apply (rule s3a) apply (rule s3b) apply (rule s3c) apply (rule s3d)
    done
qed

theorem summary_then_marks_witness:
  "snd (generateSummary session_config backend_up 1 2 7
          (mk_world one_turn (store_of one_turn) 900000))
     = Inr (Some \<lparr> sr_summary = ''A summary.'', sr_coveredMessages = 2, sr_tokens = 42 \<rparr>) \<and>
   2 \<in> set (map sum_id (summaries (db (fst (generateSummary session_config backend_up 1 2 7
          (mk_world one_turn (store_of one_turn) 900000)))))) \<and>
   map_option sess_current_summary_id
     (getSession (db (fst (generateSummary session_config backend_up 1 2 7
          (mk_world one_turn (store_of one_turn) 900000)))) 7) = Some (Some 2) \<and>
   getUnsummarizedMessages (db (fst (generateSummary session_config backend_up 1 2 7
          (mk_world one_turn (store_of one_turn) 900000)))) 7 = []"
  using summary_then_marks [OF run_one_turn] summary_one_turn by blast

text \<open>
  The file of the new summary is saved under the id drawn in \<^verbatim>\<open>generateSummary\<close>, the
  row under the id drawn in \<^verbatim>\<open>createSummary\<close>; a later read by the row's id finds no
  file.
\<close>

lemma summary_file_under_other_id:
  "getSummary (files (fst (generateSummary session_config backend_up 1 2 7
          (mk_world one_turn (store_of one_turn) 900000)))) 7 2 = None \<and>
   getSummary (files (fst (generateSummary session_config backend_up 1 2 7
          (mk_world one_turn (store_of one_turn) 900000)))) 7 1 \<noteq> None"
proof -
  let ?w = "mk_world one_turn (store_of one_turn) 900000"
  from generateSummary_steps [OF run_one_turn] obtain sf where
    "files (fst (generateSummary session_config backend_up 1 2 7 ?w))
       = (files ?w)\<lparr> summary_files := (summary_files (files ?w))((7, 1) \<mapsto> sf) \<rparr>"
    by blast
  then show ?thesis
    by (simp add: getSummary_def mk_world_def store_of_def)
qed

section \<open>A failing backend call\<close>

lemma load_contents_cases:
  "load_contents f sid ms = Inl TypeError \<or> (\<exists>cs. load_contents f sid ms = Inr cs)"
  by (cases "load_contents f sid ms") (auto dest: load_contents_error)

text \<open>
  C3. With a backend whose call throws, \<^verbatim>\<open>generateSummary\<close> writes nothing: the
  database and the files are those of the start and no write was even attempted (the
  history has not grown), so the session's current summary is the same and the same
  messages are still unsummarized, ready for the next run. The call aborts: it returns
  \<^verbatim>\<open>null\<close> when there is nothing to summarize, fails with the \<^verbatim>\<open>TypeError\<close> of a
  missing message file before the backend is reached, and otherwise fails with the
  backend's error.
\<close>

theorem backend_failure_no_writes:
  assumes "\<forall>req. openai req = Inl err"
  shows "db (fst (generateSummary cfg openai u1 u2 sid w)) = db w \<and>
         files (fst (generateSummary cfg openai u1 u2 sid w)) = files w \<and>
         history (fst (generateSummary cfg openai u1 u2 sid w)) = history w \<and>
         snd (generateSummary cfg openai u1 u2 sid w) =
           (if getUnsummarizedMessages (db w) sid = [] then Inr None
            else case load_contents (files w) sid (getUnsummarizedMessages (db w) sid) of
                   Inl e \<Rightarrow> Inl TypeError
                 | Inr cs \<Rightarrow> Inl (BackendError err)) \<and>
         getUnsummarizedMessages (db (fst (generateSummary cfg openai u1 u2 sid w))) sid
           = getUnsummarizedMessages (db w) sid \<and>
         getCurrentSummary (db (fst (generateSummary cfg openai u1 u2 sid w))) sid
           = getCurrentSummary (db w) sid"
proof -
  let ?r = "generateSummary cfg openai u1 u2 sid w"
  let ?msgs = "getUnsummarizedMessages (db w) sid"
  have a: "db (fst ?r) = db w \<and> files (fst ?r) = files w \<and> history (fst ?r) = history w \<and>
           snd ?r = (if ?msgs = [] then Inr None
                     else case load_contents (files w) sid ?msgs of
                            Inl e \<Rightarrow> Inl TypeError
                          | Inr cs \<Rightarrow> Inl (BackendError err))"
  proof (cases "?msgs = []")
    case True
    then show ?thesis by (simp add: generateSummary_def Let_def)
  next
    case False
    from load_contents_cases [of "files w" sid ?msgs] show ?thesis
    proof
      assume "load_contents (files w) sid ?msgs = Inl TypeError"
      with False show ?thesis by (simp add: generateSummary_def Let_def)
    next
      assume "\<exists>cs. load_contents (files w) sid ?msgs = Inr cs"
      then obtain cs where "load_contents (files w) sid ?msgs = Inr cs" by blast
      with False assms show ?thesis by (simp add: generateSummary_def Let_def)
    qed
  qed
  then show ?thesis by simp
qed

theorem backend_failure_no_writes_witness:
  "(\<forall>req. backend_down req = Inl ''timeout'') \<and>
   snd (generateSummary session_config backend_down 1 2 7
          (mk_world one_turn (store_of one_turn) 900000)) = Inl (BackendError ''timeout'') \<and>
   db (fst (generateSummary session_config backend_down 1 2 7
          (mk_world one_turn (store_of one_turn) 900000)))
     = db (mk_world one_turn (store_of one_turn) 900000) \<and>
   files (fst (generateSummary session_config backend_down 1 2 7
          (mk_world one_turn (store_of one_turn) 900000))) = store_of one_turn \<and>
   history (fst (generateSummary session_config backend_down 1 2 7
          (mk_world one_turn (store_of one_turn) 900000))) = [] \<and>
   getUnsummarizedMessages (db (fst (generateSummary session_config backend_down 1 2 7
          (mk_world one_turn (store_of one_turn) 900000)))) 7 = one_turn"
proof -
  let ?w = "mk_world one_turn (store_of one_turn) 900000"
  have d: "\<forall>req. backend_down req = Inl ''timeout''"
    by (simp add: backend_down_def)
  obtain cs where cs: "load_contents (store_of one_turn) 7 one_turn = Inr cs"
    using load_one_turn by blast
  have f: "files ?w = store_of one_turn" and h: "history ?w = []"
    by (simp_all add: mk_world_def)
  have n: "one_turn \<noteq> []" by (simp add: one_turn_def)
  from backend_failure_no_writes [OF d, of session_config 1 2 7 ?w]
  have "snd (generateSummary session_config backend_down 1 2 7 ?w)
          = Inl (BackendError ''timeout'') \<and>
        db (fst (generateSummary session_config backend_down 1 2 7 ?w)) = db ?w \<and>
        files (fst (generateSummary session_config backend_down 1 2 7 ?w)) = store_of one_turn \<and>
        history (fst (generateSummary session_config backend_down 1 2 7 ?w)) = [] \<and>
        getUnsummarizedMessages (db (fst (generateSummary session_config backend_down 1 2 7 ?w))) 7
          = one_turn"
    by (simp add: unsummarized_one_turn f h cs n)
  with d show ?thesis by blast
qed

section \<open>Content before metadata\<close>

lemma insert_message_eq:
  "insert_message row d =
     (if msg_role row \<in> {''user'', ''assistant'', ''system''} \<and>
         msg_id row \<notin> set (map msg_id (messages d)) \<and>
         msg_session_id row \<in> set (map sess_id (sessions d))
      then Inr (d\<lparr> messages := messages d @ [row] \<rparr>)
      else Inl (if msg_role row \<notin> {''user'', ''assistant'', ''system''} then CheckViolation
                else if msg_id row \<in> set (map msg_id (messages d)) then UniqueViolation
                else ForeignKeyViolation))"
  by (simp add: insert_message_def)

lemma messages_have_content_write:
  "messages_have_content (d, f) \<Longrightarrow>
   messages_have_content (d, f\<lparr> message_files := (message_files f)(k \<mapsto> c) \<rparr>)"
  by (auto simp: messages_have_content_def)

lemma messages_have_content_insert:
  "messages_have_content (d, f) \<Longrightarrow>
   message_files f (msg_session_id row, msg_id row) \<noteq> None \<Longrightarrow>
   messages_have_content (d\<lparr> messages := messages d @ [row] \<rparr>, f)"
  by (auto simp: messages_have_content_def)

lemma messages_have_content_touch:
  "messages_have_content (d, f) \<Longrightarrow> messages_have_content (touch_session now sid d, f)"
  by (auto simp: messages_have_content_def touch_session_def)

lemma content_at_write:
  "content_at f p \<Longrightarrow> content_at (f\<lparr> message_files := (message_files f)(k \<mapsto> c) \<rparr>) p"
  by (cases p) (auto simp: content_at_def)

lemma summaries_have_content_write:
  "summaries_have_content (d, f) \<Longrightarrow> summaries d' = summaries d \<Longrightarrow>
   summaries_have_content (d', f\<lparr> message_files := (message_files f)(k \<mapsto> c) \<rparr>)"
  by (auto simp: summaries_have_content_def intro: content_at_write)

lemma msg_id_mark: "msg_id (mark ids m) = msg_id m"
  by (simp add: mark_def)

lemma sess_id_repoint:
  "map sess_id (sessions (repoint_session rowId now sid d)) = map sess_id (sessions d)"
  by (induction "sessions d" arbitrary: d) (auto simp: repoint_session_def)

text \<open>
  A successful summarization keeps the invariant: the new row points to the file saved
  just before it.
\<close>

lemma generateSummary_keeps_content:
  assumes "generateSummary cfg openai summaryId rowId sid w = (w', Inr (Some r))"
    and "messages_have_content (db w, files w)"
    and "summaries_have_content (db w, files w)"
  shows "messages_have_content (db w', files w') \<and> summaries_have_content (db w', files w') \<and>
         summaries (db w') \<noteq> [] \<and>
         map msg_id (messages (db w')) = map msg_id (messages (db w)) \<and>
         map sess_id (sessions (db w')) = map sess_id (sessions (db w))"
proof -
  from generateSummary_steps [OF assms(1)] obtain sf row where
    fp: "sum_file_path row = SummaryPath sid summaryId"
    and f: "files w' = (files w)\<lparr> summary_files :=
                        (summary_files (files w))((sid, summaryId) \<mapsto> sf) \<rparr>"
    and d: "db w' = (repoint_session rowId (clock w) sid
                      ((db w)\<lparr> summaries := summaries (db w) @ [row] \<rparr>))
                   \<lparr> messages := map (mark (map msg_id (getUnsummarizedMessages (db w) sid)))
                                     (messages (db w)) \<rparr>"
    by blast
  have m: "messages_have_content (db w', files w')"
    using assms(2) by (auto simp: messages_have_content_def d f mark_def)
  have "content_at (files w') p" if "content_at (files w) p" for p
    using that by (cases p) (auto simp: content_at_def f)
  then have s: "summaries_have_content (db w', files w')"
    using assms(3)
    by (auto simp: summaries_have_content_def d repoint_session_def fp)
       (simp add: content_at_def f)
  have n: "summaries (db w') \<noteq> []"
    by (simp add: d repoint_session_def)
  have i: "map msg_id (messages (db w')) = map msg_id (messages (db w))"
    by (simp add: d msg_id_mark)
  have j: "map sess_id (sessions (db w')) = map sess_id (sessions (db w))"
    by (simp add: d sess_id_repoint)
  from m s n i j show ?thesis by blast
qed

text \<open>
  C4. Starting from a state in which every message row has its file, \<^verbatim>\<open>addMessage\<close>
  first writes the file of the new message, with the database untouched. When the role is
  allowed, the id is new and the session exists, it then inserts the row with the same id
  and updates the session's timestamps, and returns the message; otherwise the insert is
  rejected, the database stays as it was and the file stays without a row. Every state it
  goes through, the last of which is the state it ends in, has a file for every message
  row; the summary rows and the summary files are those of the start, so every summary
  row still has its file when it had one at the start.
\<close>

theorem addMessage_content_first:
  assumes "messages_have_content (db w, files w)"
  shows "let c = \<lparr> mf_id = mid, mf_session_id = sid, mf_role = role, mf_content = content,
                   mf_tool_used = or_null (mm_toolUsed meta), mf_sources = mm_sources meta,
                   mf_metadata = mm_extra meta, mf_created_at = clock w \<rparr>;
             f1 = (files w)\<lparr> message_files := (message_files (files w))((sid, mid) \<mapsto> c) \<rparr>;
             row = \<lparr> msg_id = mid, msg_session_id = sid, msg_role = role,
                     msg_file_path = MessagePath sid mid,
                     msg_tokens = (length content + 3) div 4,
                     msg_is_summarized = False, msg_created_at = clock w \<rparr>;
             d1 = (db w)\<lparr> messages := messages (db w) @ [row] \<rparr>;
             d2 = touch_session (clock w) sid d1;
             accepted = (role \<in> {''user'', ''assistant'', ''system''} \<and>
                         mid \<notin> set (map msg_id (messages (db w))) \<and>
                         sid \<in> set (map sess_id (sessions (db w))));
             new = (if accepted then [(db w, f1), (d1, f1), (d2, f1)] else [(db w, f1)]);
             r = addMessage mid sid role content meta w
         in history (fst r) = history w @ new \<and>
            (db (fst r), files (fst r)) = last new \<and>
            snd r = (if accepted
                     then Inr \<lparr> am_id = mid, am_role = role, am_content = content,
                                am_tokens = (length content + 3) div 4 \<rparr>
                     else Inl (if role \<notin> {''user'', ''assistant'', ''system''}
                               then CheckViolation
                               else if mid \<in> set (map msg_id (messages (db w)))
                               then UniqueViolation else ForeignKeyViolation)) \<and>
            (\<forall>s \<in> set new.
                messages_have_content s \<and>
                summaries (fst s) = summaries (db w) \<and>
                summary_files (snd s) = summary_files (files w) \<and>
                (summaries_have_content (db w, files w) \<longrightarrow> summaries_have_content s))"
proof -
  let ?c = "\<lparr> mf_id = mid, mf_session_id = sid, mf_role = role, mf_content = content,
              mf_tool_used = or_null (mm_toolUsed meta), mf_sources = mm_sources meta,
              mf_metadata = mm_extra meta, mf_created_at = clock w \<rparr>"
  let ?f1 = "(files w)\<lparr> message_files := (message_files (files w))((sid, mid) \<mapsto> ?c) \<rparr>"
  let ?row = "\<lparr> msg_id = mid, msg_session_id = sid, msg_role = role,
                msg_file_path = MessagePath sid mid, msg_tokens = (length content + 3) div 4,
                msg_is_summarized = False, msg_created_at = clock w \<rparr>"
  let ?d1 = "(db w)\<lparr> messages := messages (db w) @ [?row] \<rparr>"
  let ?d2 = "touch_session (clock w) sid ?d1"
  let ?acc = "role \<in> {''user'', ''assistant'', ''system''} \<and>
              mid \<notin> set (map msg_id (messages (db w))) \<and>
              sid \<in> set (map sess_id (sessions (db w)))"
  have now: "or_now (Some (clock w)) (clock w) = clock w"
    by (simp add: or_now_def)
  have p1: "messages_have_content (db w, ?f1)"
    using assms by (rule messages_have_content_write)
  have p2: "messages_have_content (?d1, ?f1)"
    using p1 by (rule messages_have_content_insert) simp
  have p3: "messages_have_content (?d2, ?f1)"
    using p2 by (rule messages_have_content_touch)
  have q1: "summaries_have_content (db w, files w) \<longrightarrow> summaries_have_content (db w, ?f1)"
    by (auto intro: summaries_have_content_write)
  have q2: "summaries_have_content (db w, files w) \<longrightarrow> summaries_have_content (?d1, ?f1)"
    by (auto intro: summaries_have_content_write)
  have q3: "summaries_have_content (db w, files w) \<longrightarrow> summaries_have_content (?d2, ?f1)"
    by (auto simp: touch_session_def intro: summaries_have_content_write)
  have ins: "insert_message ?row (db w) =
               (if ?acc then Inr ?d1
                else Inl (if role \<notin> {''user'', ''assistant'', ''system''} then CheckViolation
                          else if mid \<in> set (map msg_id (messages (db w)))
                          then UniqueViolation else ForeignKeyViolation))"
    by (simp add: insert_message_eq)
  show ?thesis
  proof (cases ?acc)
    case True
    have run: "addMessage mid sid role content meta w =
                 (w\<lparr> files := ?f1, db := ?d2,
                     history := history w @ [(db w, ?f1), (?d1, ?f1), (?d2, ?f1)] \<rparr>,
                  Inr \<lparr> am_id = mid, am_role = role, am_content = content,
                        am_tokens = (length content + 3) div 4 \<rparr>)"
      using True
      by (simp add: addMessage_def saveMessage_def createMessage_def writeFile_def
          commit_def Date_now_def getRelativePath_def Let_def now ins)
    show ?thesis
      unfolding Let_def run using True p1 p2 p3 q1 q2 q3
      by (simp add: touch_session_def)
  next
    case False
    have run: "addMessage mid sid role content meta w =
                 (w\<lparr> files := ?f1, history := history w @ [(db w, ?f1)] \<rparr>,
                  Inl (if role \<notin> {''user'', ''assistant'', ''system''} then CheckViolation
                       else if mid \<in> set (map msg_id (messages (db w)))
                       then UniqueViolation else ForeignKeyViolation))"
    proof -
      from False have i: "insert_message ?row (db w) =
          Inl (if role \<notin> {''user'', ''assistant'', ''system''} then CheckViolation
               else if mid \<in> set (map msg_id (messages (db w)))
               then UniqueViolation else ForeignKeyViolation)"
        unfolding ins by (rule if_not_P)
      show ?thesis
        by (simp add: addMessage_def saveMessage_def createMessage_def writeFile_def
            commit_def Date_now_def getRelativePath_def Let_def now i)
    qed
    show ?thesis
      unfolding Let_def run using False p1 q1
      by simp
  qed
qed

lemma content_one_turn:
  "messages_have_content (db (mk_world one_turn (store_of one_turn) t),
                          files (mk_world one_turn (store_of one_turn) t)) \<and>
   summaries_have_content (db (mk_world one_turn (store_of one_turn) t),
                           files (mk_world one_turn (store_of one_turn) t))"
  by (simp add: messages_have_content_def summaries_have_content_def mk_world_def
      one_turn_def store_of_def mk_row_def)

lemma content_after_summary:
  "messages_have_content (db after_summary, files after_summary) \<and>
   summaries_have_content (db after_summary, files after_summary) \<and>
   summaries (db after_summary) \<noteq> [] \<and>
   map msg_id (messages (db after_summary)) = [100, 101] \<and>
   map sess_id (sessions (db after_summary)) = [7]"
proof -
  have r: "generateSummary session_config backend_up 1 2 7
             (mk_world one_turn (store_of one_turn) 900000)
           = (after_summary,
              Inr (Some \<lparr> sr_summary = ''A summary.'', sr_coveredMessages = 2,
                          sr_tokens = 42 \<rparr>))"
    unfolding after_summary_def by (rule run_one_turn)
  from generateSummary_keeps_content [OF r] content_one_turn [of 900000]
  show ?thesis
    by (simp add: mk_world_def one_turn_def mk_row_def demo_session_def)
qed

theorem addMessage_content_first_witness:
  "messages_have_content (db after_summary, files after_summary) \<and>
   summaries_have_content (db after_summary, files after_summary) \<and>
   summaries (db after_summary) \<noteq> [] \<and>
   snd (addMessage 102 7 ''user'' ''hi'' no_metadata after_summary)
     = Inr \<lparr> am_id = 102, am_role = ''user'', am_content = ''hi'', am_tokens = 1 \<rparr> \<and>
   102 \<in> set (map msg_id
              (messages (db (fst (addMessage 102 7 ''user'' ''hi'' no_metadata after_summary))))) \<and>
   (\<exists>s0 s1 s2.
      history (fst (addMessage 102 7 ''user'' ''hi'' no_metadata after_summary))
        = history after_summary @ [s0, s1, s2] \<and>
      fst s0 = db after_summary \<and>
      message_files (snd s0) (7, 102) \<noteq> None \<and>
      102 \<in> set (map msg_id (messages (fst s1))) \<and>
      messages_have_content s0 \<and> summaries_have_content s0 \<and>
      messages_have_content s1 \<and> summaries_have_content s1 \<and>
      messages_have_content s2 \<and> summaries_have_content s2) \<and>
   snd (addMessage 200 99 ''user'' ''hi'' no_metadata after_summary)
     = Inl ForeignKeyViolation \<and>
   db (fst (addMessage 200 99 ''user'' ''hi'' no_metadata after_summary)) = db after_summary \<and>
   message_files (files (fst (addMessage 200 99 ''user'' ''hi'' no_metadata after_summary)))
     (99, 200) \<noteq> None"
proof -
  note c = content_after_summary
  from c have h: "messages_have_content (db after_summary, files after_summary)"
    and hs: "summaries_have_content (db after_summary, files after_summary)"
    and ids: "map msg_id (messages (db after_summary)) = [100, 101]"
    and ss: "map sess_id (sessions (db after_summary)) = [7]"
    by blast+
  have ids': "msg_id ` set (messages (db after_summary)) = {100, 101}"
    using ids by (metis list.set_map list.simps(15) set_empty2 empty_set)
  have ss': "sess_id ` set (sessions (db after_summary)) = {7}"
    using ss by (metis list.set_map list.simps(15) empty_set)
  from addMessage_content_first [OF h, of 102 7 "''user''" "''hi''" no_metadata] hs
  have a: "snd (addMessage 102 7 ''user'' ''hi'' no_metadata after_summary)
             = Inr \<lparr> am_id = 102, am_role = ''user'', am_content = ''hi'', am_tokens = 1 \<rparr> \<and>
           102 \<in> set (map msg_id
              (messages (db (fst (addMessage 102 7 ''user'' ''hi'' no_metadata after_summary))))) \<and>
           (\<exists>s0 s1 s2.
              history (fst (addMessage 102 7 ''user'' ''hi'' no_metadata after_summary))
                = history after_summary @ [s0, s1, s2] \<and>
              fst s0 = db after_summary \<and>
              message_files (snd s0) (7, 102) \<noteq> None \<and>
              102 \<in> set (map msg_id (messages (fst s1))) \<and>
              messages_have_content s0 \<and> summaries_have_content s0 \<and>
              messages_have_content s1 \<and> summaries_have_content s1 \<and>
              messages_have_content s2 \<and> summaries_have_content s2)"
    by (simp add: Let_def ids' ss' touch_session_def)
  from addMessage_content_first [OF h, of 200 99 "''user''" "''hi''" no_metadata]
  have b: "snd (addMessage 200 99 ''user'' ''hi'' no_metadata after_summary)
             = Inl ForeignKeyViolation \<and>
           db (fst (addMessage 200 99 ''user'' ''hi'' no_metadata after_summary))
             = db after_summary \<and>
           message_files (files (fst (addMessage 200 99 ''user'' ''hi'' no_metadata after_summary)))
             (99, 200) \<noteq> None"
    by (simp add: Let_def ids' ss')
  from c a b show ?thesis by blast
qed

section \<open>Context exclusivity\<close>

text \<open>
  C5. Every entry of the \<^verbatim>\<open>messages\<close> list (the active messages) of a context package
  returned by \<^verbatim>\<open>getSessionContext\<close> is the file content of a message row of the
  session whose \<^verbatim>\<open>is_summarized\<close> flag is false in the database as the call leaves it:
  the list is the image of a list of such rows.
\<close>

theorem context_exclusivity:
  assumes "getSessionContext cfg openai u1 u2 sid w = (w', Inr ctx)"
  shows "\<exists>ms. set ms \<subseteq> set (messages (db w')) \<and>
              (\<forall>m \<in> set ms. msg_session_id m = sid \<and> \<not> msg_is_summarized m \<and>
                            getMessage (files w') sid (msg_id m) \<noteq> None) \<and>
              ctx_messages ctx =
                map (\<lambda>m. (mf_role (the (getMessage (files w') sid (msg_id m))),
                           mf_content (the (getMessage (files w') sid (msg_id m))))) ms"
proof -
  let ?ms = "filter (\<lambda>m. getMessage (files w') sid (msg_id m) \<noteq> None)
               (getUnsummarizedMessages (db w') sid)"
  have "ctx_messages ctx =
          map (\<lambda>m. (mf_role (the (getMessage (files w') sid (msg_id m))),
                     mf_content (the (getMessage (files w') sid (msg_id m))))) ?ms"
    using getSessionContext_messages [OF assms] by (simp add: active_messages_eq)
  moreover have "set ?ms \<subseteq> set (messages (db w'))"
    by (auto simp: set_getUnsummarizedMessages)
  moreover have "\<forall>m \<in> set ?ms. msg_session_id m = sid \<and> \<not> msg_is_summarized m \<and>
                            getMessage (files w') sid (msg_id m) \<noteq> None"
    by (auto simp: set_getUnsummarizedMessages)
  ultimately show ?thesis by blast
qed

lemma context_mixed:
  "getSessionContext session_config backend_down 1 2 7
       (mk_world mixed_rows (store_of mixed_rows) 1000)
     = (mk_world mixed_rows (store_of mixed_rows) 1000,
        Inr \<lparr> ctx_summary = None, ctx_messages = [(''user'', ''text'')],
              hasSummary = False, activeMessageCount = 1 \<rparr>)"
  by (simp add: getSessionContext_def checkSummarizationNeeded_def getSession_def mk_world_def
      demo_session_def Date_now_def session_config_def Let_def getCurrentSummary_def
      getUnsummarizedMessages_def mixed_rows_def summarized_row_def mk_row_def store_of_def
      getMessage_def mk_file_def or_null_def)

theorem context_exclusivity_witness:
  "getSessionContext session_config backend_down 1 2 7
       (mk_world mixed_rows (store_of mixed_rows) 1000)
     = (mk_world mixed_rows (store_of mixed_rows) 1000,
        Inr \<lparr> ctx_summary = None, ctx_messages = [(''user'', ''text'')],
              hasSummary = False, activeMessageCount = 1 \<rparr>) \<and>
   (\<exists>ms. set ms \<subseteq> set mixed_rows \<and>
         (\<forall>m \<in> set ms. msg_session_id m = 7 \<and> \<not> msg_is_summarized m \<and>
                       getMessage (store_of mixed_rows) 7 (msg_id m) \<noteq> None) \<and>
         [(''user'', ''text'')] =
           map (\<lambda>m. (mf_role (the (getMessage (store_of mixed_rows) 7 (msg_id m))),
                      mf_content (the (getMessage (store_of mixed_rows) 7 (msg_id m))))) ms)"
  using context_exclusivity [OF context_mixed] context_mixed
  by (simp add: mk_world_def)

section \<open>Summarizing nothing\<close>

text \<open>
  C6. When the session has no unsummarized message, \<^verbatim>\<open>generateSummary\<close> returns
  \<^verbatim>\<open>null\<close> and leaves the whole state as it was: no backend call is recorded, no file
  and no row is written, no session or message row changes.
\<close>

theorem empty_batch_noop:
  assumes "getUnsummarizedMessages (db w) sid = []"
  shows "generateSummary cfg openai u1 u2 sid w = (w, Inr None)"
  using assms by (simp add: generateSummary_def Let_def)

theorem empty_batch_noop_witness:
  "getUnsummarizedMessages (db (mk_world [summarized_row] (store_of [summarized_row]) 900000)) 7 = [] \<and>
   generateSummary session_config backend_down 1 2 7
       (mk_world [summarized_row] (store_of [summarized_row]) 900000)
     = (mk_world [summarized_row] (store_of [summarized_row]) 900000, Inr None)"
proof -
  have h: "getUnsummarizedMessages (db (mk_world [summarized_row] (store_of [summarized_row]) 900000)) 7 = []"
    by (simp add: getUnsummarizedMessages_def mk_world_def summarized_row_def mk_row_def)
  show ?thesis using h empty_batch_noop [OF h] by simp
qed

section \<open>Operations on a session that does not exist\<close>

lemma getSession_None_iff:
  "getSession d sid = None \<longleftrightarrow> sid \<notin> set (map sess_id (sessions d))"
  by (auto simp: getSession_def find_None_iff)

lemma insert_message_unknown:
  "sid \<notin> set (map sess_id (sessions d)) \<Longrightarrow> msg_session_id row = sid \<Longrightarrow>
   insert_message row d \<in> {Inl CheckViolation, Inl UniqueViolation, Inl ForeignKeyViolation}"
  by (simp add: insert_message_def)

lemma insert_summary_unknown:
  "sid \<notin> set (map sess_id (sessions d)) \<Longrightarrow> sum_session_id row = sid \<Longrightarrow>
   insert_summary row d \<in> {Inl UniqueViolation, Inl ForeignKeyViolation}"
  by (simp add: insert_summary_def)

lemma mark_unknown_ids:
  "set ids \<inter> set (map msg_id (messages (db w))) = {} \<Longrightarrow>
   db (markMessagesSummarized ids w) = db w"
proof -
  assume a: "set ids \<inter> set (map msg_id (messages (db w))) = {}"
  have "map (\<lambda>m. if msg_id m \<in> set ids then m\<lparr> msg_is_summarized := True \<rparr> else m)
            (messages (db w)) = messages (db w)"
    using a by (intro map_idI) auto
  then show ?thesis
    by (simp add: markMessagesSummarized_def commit_def)
qed

text \<open>
  C7, as stated, fails. For the session id 99, which no row has, counting the meaningful
  messages returns 0 and reading the current summary returns \<^verbatim>\<open>null\<close>;
  \<^verbatim>\<open>markMessagesSummarized\<close> takes message ids only and, given an id that no message has,
  returns normally with the database as it was. None of them raises an error.
\<close>

theorem unknown_session_defaults:
  "getSession (db (mk_world one_turn (store_of one_turn) 900000)) 99 = None \<and>
   countMeaningfulMessages (db (mk_world one_turn (store_of one_turn) 900000)) 99 = 0 \<and>
   getCurrentSummary (db (mk_world one_turn (store_of one_turn) 900000)) 99 = None \<and>
   db (markMessagesSummarized [555] (mk_world one_turn (store_of one_turn) 900000))
     = db (mk_world one_turn (store_of one_turn) 900000)"
  by (simp add: getSession_def getCurrentSummary_def countMeaningfulMessages_def
      markMessagesSummarized_def commit_def mk_world_def one_turn_def mk_row_def
      demo_session_def)

text \<open>
  C7, amended. For a session id that no session row has, in a database whose message rows
  all belong to existing sessions: \<^verbatim>\<open>createMessage\<close> and \<^verbatim>\<open>createSummary\<close> fail with
  a constraint violation of the database (the foreign key, unless the role check or the
  primary key fails first) and change nothing; \<^verbatim>\<open>countMeaningfulMessages\<close> returns 0,
  \<^verbatim>\<open>getCurrentSummary\<close> returns \<^verbatim>\<open>null\<close>, \<^verbatim>\<open>getUnsummarizedMessages\<close> returns the
  empty list; \<^verbatim>\<open>markMessagesSummarized\<close> with ids that no message has changes no row.
\<close>

theorem unknown_session_results:
  assumes "getSession (db w) sid = None"
    and "\<forall>m \<in> set (messages (db w)). msg_session_id m \<in> set (map sess_id (sessions (db w)))"
  shows "fst (createMessage freshM sid data w) = w \<and>
         snd (createMessage freshM sid data w)
           \<in> {Inl CheckViolation, Inl UniqueViolation, Inl ForeignKeyViolation} \<and>
         fst (createSummary freshS sid sdata w) = w \<and>
         snd (createSummary freshS sid sdata w) \<in> {Inl UniqueViolation, Inl ForeignKeyViolation} \<and>
         countMeaningfulMessages (db w) sid = 0 \<and>
         getCurrentSummary (db w) sid = None \<and>
         getUnsummarizedMessages (db w) sid = [] \<and>
         (set ids \<inter> set (map msg_id (messages (db w))) = {} \<longrightarrow>
            db (markMessagesSummarized ids w) = db w)"
proof -
  from assms(1) have u: "sid \<notin> set (map sess_id (sessions (db w)))"
    by (simp add: getSession_None_iff)
  with assms(2) have none: "\<forall>m \<in> set (messages (db w)). msg_session_id m \<noteq> sid"
    by auto
  let ?row = "\<lparr> msg_id = (case md_id data of Some i \<Rightarrow> i | None \<Rightarrow> freshM),
                msg_session_id = sid, msg_role = md_role data,
                msg_file_path = md_filePath data, msg_tokens = md_tokens data,
                msg_is_summarized = False, msg_created_at = clock w \<rparr>"
  have "insert_message ?row (db w)
          \<in> {Inl CheckViolation, Inl UniqueViolation, Inl ForeignKeyViolation}"
    using u by (rule insert_message_unknown) simp
  then have a: "fst (createMessage freshM sid data w) = w \<and>
         snd (createMessage freshM sid data w)
           \<in> {Inl CheckViolation, Inl UniqueViolation, Inl ForeignKeyViolation}"
    by (auto simp: createMessage_def Let_def Date_now_def)
  let ?srow = "\<lparr> sum_id = freshS, sum_session_id = sid, sum_file_path = sd_filePath sdata,
                 sum_tokens = sd_tokens sdata,
                 sum_covers_until_message_id = sd_coversUntilMessageId sdata,
                 sum_created_at = clock w \<rparr>"
  have "insert_summary ?srow (db w) \<in> {Inl UniqueViolation, Inl ForeignKeyViolation}"
    using u by (rule insert_summary_unknown) simp
  then have b: "fst (createSummary freshS sid sdata w) = w \<and>
         snd (createSummary freshS sid sdata w) \<in> {Inl UniqueViolation, Inl ForeignKeyViolation}"
    by (auto simp: createSummary_def Let_def Date_now_def)
  have c: "countMeaningfulMessages (db w) sid = 0"
    using none by (simp add: countMeaningfulMessages_def filter_empty_conv)
  have d: "getCurrentSummary (db w) sid = None"
    using assms(1) by (simp add: getCurrentSummary_def)
  have e: "getUnsummarizedMessages (db w) sid = []"
    using none by (simp add: getUnsummarizedMessages_def filter_empty_conv)
  from a b c d e mark_unknown_ids [of ids w] show ?thesis by blast
qed

theorem unknown_session_results_witness:
  "getSession (db (mk_world one_turn (store_of one_turn) 900000)) 99 = None \<and>
   set (map msg_session_id (messages (db (mk_world one_turn (store_of one_turn) 900000))))
     \<subseteq> set (map sess_id (sessions (db (mk_world one_turn (store_of one_turn) 900000)))) \<and>
   createMessage 1 99 new_message (mk_world one_turn (store_of one_turn) 900000)
     = (mk_world one_turn (store_of one_turn) 900000, Inl ForeignKeyViolation) \<and>
   createSummary 2 99 new_summary (mk_world one_turn (store_of one_turn) 900000)
     = (mk_world one_turn (store_of one_turn) 900000, Inl ForeignKeyViolation) \<and>
   set [555] \<inter> set (map msg_id (messages (db (mk_world one_turn (store_of one_turn) 900000))))
     = {} \<and>
   db (markMessagesSummarized [555] (mk_world one_turn (store_of one_turn) 900000))
     = db (mk_world one_turn (store_of one_turn) 900000)"
proof -
  let ?w = "mk_world one_turn (store_of one_turn) 900000"
  have s: "getSession (db ?w) 99 = None"
    by (simp add: getSession_def mk_world_def demo_session_def)
  have r: "\<forall>m \<in> set (messages (db ?w)). msg_session_id m \<in> set (map sess_id (sessions (db ?w)))"
    by (simp add: mk_world_def one_turn_def mk_row_def demo_session_def)
  have i: "set [555] \<inter> set (map msg_id (messages (db ?w))) = {}"
    by (simp add: mk_world_def one_turn_def mk_row_def)
  have m: "snd (createMessage 1 99 new_message ?w) = Inl ForeignKeyViolation"
    by (simp add: createMessage_def insert_message_def new_message_def Let_def mk_world_def
        one_turn_def mk_row_def demo_session_def)
  have y: "snd (createSummary 2 99 new_summary ?w) = Inl ForeignKeyViolation"
    by (simp add: createSummary_def insert_summary_def new_summary_def Let_def mk_world_def
        demo_session_def)
  from unknown_session_results [OF s r, of 1 new_message 2 new_summary "[555]"] i
  have "fst (createMessage 1 99 new_message ?w) = ?w"
    and "fst (createSummary 2 99 new_summary ?w) = ?w"
    and k: "db (markMessagesSummarized [555] ?w) = db ?w"
    by blast+
  with m y have "createMessage 1 99 new_message ?w = (?w, Inl ForeignKeyViolation)"
    and "createSummary 2 99 new_summary ?w = (?w, Inl ForeignKeyViolation)"
    by (metis prod.collapse)+
  moreover have "set (map msg_session_id (messages (db ?w)))
                   \<subseteq> set (map sess_id (sessions (db ?w)))"
    using r by auto
  ultimately show ?thesis using s i k by blast
qed

section \<open>Paging through the messages of a session\<close>

lemma page_props:
  fixes ys :: "'a list" and key :: "'a \<Rightarrow> int"
  assumes "sorted (map key ys)"
  shows "sorted (map key (rev (take n (rev ys))))"
    and "\<forall>m \<in> set ys - set (rev (take n (rev ys))). \<forall>p \<in> set (rev (take n (rev ys))). key m \<le> key p"
    and "length (rev (take n (rev ys))) = min n (length ys)"
    and "set (rev (take n (rev ys))) \<subseteq> set ys"
proof -
  have e: "rev (take n (rev ys)) = drop (length ys - n) ys"
    by (simp add: take_rev)
  have s: "sorted (map key (take (length ys - n) ys @ drop (length ys - n) ys))"
    using assms by simp
  show "sorted (map key (rev (take n (rev ys))))"
    using assms by (simp add: e sorted_wrt_drop drop_map[symmetric])
  show "\<forall>m \<in> set ys - set (rev (take n (rev ys))). \<forall>p \<in> set (rev (take n (rev ys))). key m \<le> key p"
  proof (intro ballI)
    fix m p assume m: "m \<in> set ys - set (rev (take n (rev ys)))"
      and p: "p \<in> set (rev (take n (rev ys)))"
    from m have "m \<in> set (take (length ys - n) ys)"
      unfolding e by (metis DiffD1 DiffD2 UnE append_take_drop_id set_append)
    with p s show "key m \<le> key p"
      unfolding e map_append sorted_append by auto
  qed
  show "length (rev (take n (rev ys))) = min n (length ys)" by simp
  show "set (rev (take n (rev ys))) \<subseteq> set ys" by (metis set_rev set_take_subset)
qed

lemma eligible_rows:
  "(case beforeId of
      None \<Rightarrow> filter (\<lambda>m. msg_session_id m = sid) (messages d)
    | Some b \<Rightarrow>
        (case find (\<lambda>m. msg_id m = b) (messages d) of
           None \<Rightarrow> []
         | Some c \<Rightarrow> filter (\<lambda>m. msg_created_at m < msg_created_at c)
                      (filter (\<lambda>m. msg_session_id m = sid) (messages d))))
   = filter (eligible d sid beforeId) (messages d)"
proof -
  have "eligible d sid beforeId =
          (\<lambda>m. case beforeId of
                  None \<Rightarrow> msg_session_id m = sid
                | Some b \<Rightarrow>
                   (case find (\<lambda>m. msg_id m = b) (messages d) of
                      None \<Rightarrow> False
                    | Some c \<Rightarrow> msg_session_id m = sid \<and> msg_created_at m < msg_created_at c))"
    by (rule ext) (simp add: eligible_def split: option.splits)
  then show ?thesis
    by (auto split: option.splits intro: filter_cong)
qed

lemma getMessages_eq:
  "0 \<le> limit \<Longrightarrow>
   getMessages d sid limit beforeId =
     Inr (rev (take (nat limit)
            (rev (sort_key msg_created_at (filter (eligible d sid beforeId) (messages d))))))"
  by (simp add: getMessages_def Let_def eligible_rows)

text \<open>
  C8. For a limit that is not negative, \<^verbatim>\<open>getMessages\<close> returns a page of at most
  \<open>limit\<close> rows (exactly \<open>limit\<close> when that many are eligible), all of them eligible:
  rows of the session, created strictly before the cursor's message when a cursor is given.
  They are the newest: no eligible row left out was created after a row of the page. The
  page is in ascending order of creation time, and so is the list that the session service
  builds from it.
\<close>

theorem getMessages_page:
  assumes "0 \<le> limit"
  shows "\<exists>page.
           getMessages (db w) sid limit beforeId = Inr page \<and>
           SessionService_getMessages w sid limit beforeId
             = Inr (map (load_view (files w) sid) page) \<and>
           length page \<le> nat limit \<and>
           length page = min (nat limit)
                           (length (filter (eligible (db w) sid beforeId) (messages (db w)))) \<and>
           (\<forall>p \<in> set page. p \<in> set (messages (db w)) \<and> eligible (db w) sid beforeId p) \<and>
           (\<forall>m \<in> set (messages (db w)). eligible (db w) sid beforeId m \<and> m \<notin> set page \<longrightarrow>
                (\<forall>p \<in> set page. msg_created_at m \<le> msg_created_at p)) \<and>
           sorted (map msg_created_at page) \<and>
           sorted (map mv_createdAt (map (load_view (files w) sid) page))"
proof -
  let ?ys = "sort_key msg_created_at (filter (eligible (db w) sid beforeId) (messages (db w)))"
  let ?page = "rev (take (nat limit) (rev ?ys))"
  have srt: "sorted (map msg_created_at ?ys)" by simp
  have g: "getMessages (db w) sid limit beforeId = Inr ?page"
    using assms by (rule getMessages_eq)
  have s: "SessionService_getMessages w sid limit beforeId
             = Inr (map (load_view (files w) sid) ?page)"
    by (simp add: SessionService_getMessages_def g)
  have l: "length ?page = min (nat limit)
                           (length (filter (eligible (db w) sid beforeId) (messages (db w))))"
    using page_props(3) [OF srt, of "nat limit"] by simp
  have sub: "\<forall>p \<in> set ?page. p \<in> set (messages (db w)) \<and> eligible (db w) sid beforeId p"
    using page_props(4) [OF srt, of "nat limit"] by auto
  have newest: "\<forall>m \<in> set (messages (db w)). eligible (db w) sid beforeId m \<and> m \<notin> set ?page \<longrightarrow>
                (\<forall>p \<in> set ?page. msg_created_at m \<le> msg_created_at p)"
    using page_props(2) [OF srt, of "nat limit"] by auto
  have so: "sorted (map msg_created_at ?page)"
    using page_props(1) [OF srt, of "nat limit"] .
  have v: "map mv_createdAt (map (load_view (files w) sid) ?page) = map msg_created_at ?page"
    by (simp add: load_view_def Let_def comp_def)
  have l': "length ?page \<le> nat limit" using l by simp
  show ?thesis
    apply (rule exI [where x = ?page])
    apply (intro conjI)
    apply (rule g) apply (rule s) apply (rule l') apply (rule l) apply (rule sub)
    apply (rule newest) apply (rule so) apply (simp only: v so)
    done
qed

lemma page_four:
  "getMessages (db (mk_world four_rows (store_of four_rows) 50)) 7 2 (Some 103)
     = Inr [mk_row 101 ''assistant'' 20, mk_row 102 ''user'' 30]"
  by (simp add: getMessages_def mk_world_def four_rows_def mk_row_def Let_def)

theorem getMessages_page_witness:
  "(0::int) \<le> 2 \<and>
   getMessages (db (mk_world four_rows (store_of four_rows) 50)) 7 2 (Some 103)
     = Inr [mk_row 101 ''assistant'' 20, mk_row 102 ''user'' 30] \<and>
   length [mk_row 101 ''assistant'' 20, mk_row 102 ''user'' 30] \<le> nat 2 \<and>
   sorted (map msg_created_at [mk_row 101 ''assistant'' 20, mk_row 102 ''user'' 30])"
proof -
  have h: "(0::int) \<le> 2" by simp
  obtain page where
    p: "getMessages (db (mk_world four_rows (store_of four_rows) 50)) 7 2 (Some 103) = Inr page"
    and l: "length page \<le> nat 2"
    and s: "sorted (map msg_created_at page)"
    using getMessages_page [OF h, of "mk_world four_rows (store_of four_rows) 50" 7 "Some 103"]
    by blast
  from p have "page = [mk_row 101 ''assistant'' 20, mk_row 102 ''user'' 30]"
    by (simp add: page_four)
  with p l s show ?thesis by simp
qed

section \<open>A message row without its file\<close>

lemma context_without_summary:
  assumes "\<not> needsSummary (checkSummarizationNeeded cfg sid w)"
  shows "\<exists>ctx. getSessionContext cfg openai u1 u2 sid w = (w, Inr ctx) \<and>
               ctx_messages ctx = active_messages (files w) sid (getUnsummarizedMessages (db w) sid)"
  using assms by (simp add: getSessionContext_def Let_def)

lemma fresh_session_valid:
  "\<not> needsSummary (checkSummarizationNeeded session_config 7 (mk_world rows f 1000))"
  by (simp add: checkSummarizationNeeded_def getSession_def mk_world_def demo_session_def
      Date_now_def session_config_def Let_def)

lemma context_reply_only:
  "getSessionContext session_config backend_down 1 2 7 (mk_world one_turn reply_only_store 1000)
     = (mk_world one_turn reply_only_store 1000,
        Inr \<lparr> ctx_summary = None, ctx_messages = [(''assistant'', ''text'')],
              hasSummary = False, activeMessageCount = 1 \<rparr>)"
  by (simp add: getSessionContext_def fresh_session_valid)
     (simp add: getCurrentSummary_def getSession_def mk_world_def demo_session_def
        getUnsummarizedMessages_def one_turn_def mk_row_def reply_only_store_def store_of_def
        getMessage_def mk_file_def or_null_def Let_def)

text \<open>
  C9, as stated, fails for context building. The user's message 100 has a row and no file;
  the context built for the session has no entry for it, not an entry with the empty
  string: the only active message is the assistant's reply.
\<close>

theorem missing_content_dropped:
  "getMessage (files (mk_world one_turn reply_only_store 1000)) 7 100 = None \<and>
   getUnsummarizedMessages (db (mk_world one_turn reply_only_store 1000)) 7 = one_turn \<and>
   getSessionContext session_config backend_down 1 2 7 (mk_world one_turn reply_only_store 1000)
     = (mk_world one_turn reply_only_store 1000,
        Inr \<lparr> ctx_summary = None, ctx_messages = [(''assistant'', ''text'')],
              hasSummary = False, activeMessageCount = 1 \<rparr>)"
  using context_reply_only unsummarized_one_turn [of reply_only_store 1000]
  by (simp add: getMessage_def mk_world_def reply_only_store_def store_of_def mk_row_def)

text \<open>
  C9, amended. Listing the messages of a session (limit not negative) succeeds, and a row
  whose file is missing is listed with the empty string as content and the role of the
  row. Building the context, when no summarization is due, succeeds, changes nothing, and
  the active messages are the contents of the unsummarized rows that have a file: a row
  without a file is left out.
\<close>

theorem missing_content_tolerated:
  assumes "0 \<le> limit"
    and "\<not> needsSummary (checkSummarizationNeeded cfg sid w)"
  shows "(\<exists>page. getMessages (db w) sid limit beforeId = Inr page \<and>
                 SessionService_getMessages w sid limit beforeId
                   = Inr (map (load_view (files w) sid) page)) \<and>
         (getMessage (files w) sid (msg_id ref) = None \<longrightarrow>
            mv_content (load_view (files w) sid ref) = [] \<and>
            mv_role (load_view (files w) sid ref) = msg_role ref) \<and>
         (\<exists>ctx. getSessionContext cfg openai u1 u2 sid w = (w, Inr ctx) \<and>
                ctx_messages ctx =
                  map (\<lambda>m. (mf_role (the (getMessage (files w) sid (msg_id m))),
                             mf_content (the (getMessage (files w) sid (msg_id m)))))
                      (filter (\<lambda>m. getMessage (files w) sid (msg_id m) \<noteq> None)
                              (getUnsummarizedMessages (db w) sid)))"
proof -
  have a: "\<exists>page. getMessages (db w) sid limit beforeId = Inr page \<and>
                 SessionService_getMessages w sid limit beforeId
                   = Inr (map (load_view (files w) sid) page)"
    using assms(1) by (simp add: SessionService_getMessages_def getMessages_def Let_def)
  have b: "getMessage (files w) sid (msg_id ref) = None \<longrightarrow>
            mv_content (load_view (files w) sid ref) = [] \<and>
            mv_role (load_view (files w) sid ref) = msg_role ref"
    by (simp add: load_view_def Let_def)
  from context_without_summary [OF assms(2), of openai u1 u2]
  have c: "\<exists>ctx. getSessionContext cfg openai u1 u2 sid w = (w, Inr ctx) \<and>
                ctx_messages ctx =
                  map (\<lambda>m. (mf_role (the (getMessage (files w) sid (msg_id m))),
                             mf_content (the (getMessage (files w) sid (msg_id m)))))
                      (filter (\<lambda>m. getMessage (files w) sid (msg_id m) \<noteq> None)
                              (getUnsummarizedMessages (db w) sid))"
    by (simp add: active_messages_eq)
  from a b c show ?thesis by blast
qed

theorem missing_content_tolerated_witness:
  "(0::int) \<le> 50 \<and>
   \<not> needsSummary (checkSummarizationNeeded session_config 7
        (mk_world one_turn reply_only_store 1000)) \<and>
   getMessage (files (mk_world one_turn reply_only_store 1000)) 7
      (msg_id (mk_row 100 ''user'' 10)) = None \<and>
   mv_content (load_view (files (mk_world one_turn reply_only_store 1000)) 7
      (mk_row 100 ''user'' 10)) = [] \<and>
   mv_role (load_view (files (mk_world one_turn reply_only_store 1000)) 7
      (mk_row 100 ''user'' 10)) = ''user'' \<and>
   (\<exists>page. SessionService_getMessages (mk_world one_turn reply_only_store 1000) 7 50 None
              = Inr page)"
proof -
  let ?w = "mk_world one_turn reply_only_store 1000"
  have l: "(0::int) \<le> 50" by simp
  have g: "getMessage (files ?w) 7 (msg_id (mk_row 100 ''user'' 10)) = None"
    by (simp add: getMessage_def mk_world_def reply_only_store_def store_of_def mk_row_def)
  from missing_content_tolerated [OF l fresh_session_valid, of one_turn reply_only_store None
         "mk_row 100 ''user'' 10" backend_down 1 2] g
  have "mv_content (load_view (files ?w) 7 (mk_row 100 ''user'' 10)) = []"
    and "mv_role (load_view (files ?w) 7 (mk_row 100 ''user'' 10)) = msg_role (mk_row 100 ''user'' 10)"
    and "\<exists>page. SessionService_getMessages ?w 7 50 None = Inr page"
    by blast+
  with l g fresh_session_valid [of one_turn reply_only_store] show ?thesis
    by (simp add: mk_row_def)
qed

text \<open>
  When summarization is due, the batch is loaded with \<^verbatim>\<open>content.role\<close> and a missing
  file makes \<^verbatim>\<open>getSessionContext\<close> fail with a \<^verbatim>\<open>TypeError\<close>.
\<close>

lemma missing_content_breaks_summarization:
  "snd (getSessionContext session_config backend_up 1 2 7 (mk_world ten_replies no_files 360000))
     = Inl TypeError"
proof -
  have n: "needsSummary (checkSummarizationNeeded session_config 7
             (mk_world ten_replies no_files 360000))"
    by (simp add: checkSummarizationNeeded_def getSession_def mk_world_def demo_session_def
        Date_now_def session_config_def Let_def countMeaningfulMessages_def ten_replies_def
        mk_row_def upt_rec_numeral)
  have "mk_row 100 ''assistant'' 0
          \<in> set (getUnsummarizedMessages (db (mk_world ten_replies no_files 360000)) 7)"
    by (simp add: set_getUnsummarizedMessages mk_world_def ten_replies_def upt_rec_numeral
        mk_row_def)
  then obtain m ms where
    u: "getUnsummarizedMessages (db (mk_world ten_replies no_files 360000)) 7 = m # ms"
    by (cases "getUnsummarizedMessages (db (mk_world ten_replies no_files 360000)) 7") auto
  have f: "files (mk_world ten_replies no_files 360000) = no_files"
    by (simp add: mk_world_def)
  have lc: "\<And>i. getMessage no_files 7 i = None"
    by (simp add: getMessage_def no_files_def store_of_def)
  have "snd (generateSummary session_config backend_up 1 2 7
               (mk_world ten_replies no_files 360000)) = Inl TypeError"
    by (simp add: generateSummary_def Let_def u f lc)
  then show ?thesis
    using n
    by (cases "generateSummary session_config backend_up 1 2 7
                 (mk_world ten_replies no_files 360000)")
       (simp add: getSessionContext_def)
qed

section \<open>Storing a title\<close>

lemma title_only:
  "apply_updates \<lparr> upd_title = Some t, upd_currentSummaryId = None, upd_metadata = None,
                   upd_updateActivity = Some False \<rparr> now s
     = s\<lparr> sess_title := t, sess_updated_at := now \<rparr>"
  by (simp add: apply_updates_def)

lemma getMessages_two: "\<exists>page. SessionService_getMessages w sid 2 None = Inr page"
  by (simp add: SessionService_getMessages_def getMessages_def Let_def)

lemma generateTitle_outcome:
  assumes "getSession (db w) sid = Some s"
  shows "case generateTitle cfg openai sid w of
           (w', Inr (Some t)) \<Rightarrow>
              getSession (db w') sid = Some (s\<lparr> sess_title := Some t, sess_updated_at := clock w \<rparr>)
         | (w', _) \<Rightarrow> db w' = db w"
proof -
  obtain page where p: "SessionService_getMessages w sid 2 None = Inr page"
    using getMessages_two by blast
  show ?thesis
    using assms
    by (simp add: generateTitle_def p Let_def getSession_updateSession title_only
        split: option.splits sum.splits list.splits)
qed

lemma generateTitle_backend_fails:
  assumes "\<forall>req. openai req = Inl err"
  shows "snd (generateTitle cfg openai sid w) = Inr None"
proof -
  obtain page where p: "SessionService_getMessages w sid 2 None = Inr page"
    using getMessages_two by blast
  show ?thesis
    using assms
    by (simp add: generateTitle_def p Let_def split: option.splits sum.splits list.splits)
qed

text \<open>
  C10. For a session that exists: \<^verbatim>\<open>updateTitle\<close> stores the title and sets
  \<^verbatim>\<open>updated_at\<close> to the current time, and changes nothing else of the row, so
  \<^verbatim>\<open>last_activity_at\<close> stays; every \<^verbatim>\<open>updateSession\<close> with \<^verbatim>\<open>updateActivity: false\<close>
  keeps \<^verbatim>\<open>last_activity_at\<close> and sets \<^verbatim>\<open>updated_at\<close> to the current time;
  \<^verbatim>\<open>generateTitle\<close> either returns a title, stored in the same way, or leaves the
  database as it was; and when the backend call fails it returns \<^verbatim>\<open>null\<close> and the
  database is as it was.
\<close>

theorem title_update_frame:
  assumes "getSession (db w) sid = Some s"
  shows "getSession (db (updateTitle sid (Some t) w)) sid
           = Some (s\<lparr> sess_title := t, sess_updated_at := clock w \<rparr>) \<and>
         (upd_updateActivity u = Some False \<longrightarrow>
            (\<exists>s'. getSession (db (updateSession sid u w)) sid = Some s' \<and>
                  sess_last_activity_at s' = sess_last_activity_at s \<and>
                  sess_updated_at s' = clock w)) \<and>
         (case generateTitle cfg openai sid w of
            (w', Inr (Some g)) \<Rightarrow>
               getSession (db w') sid
                 = Some (s\<lparr> sess_title := Some g, sess_updated_at := clock w \<rparr>)
          | (w', _) \<Rightarrow> db w' = db w) \<and>
         ((\<forall>req. openai req = Inl err) \<longrightarrow>
            snd (generateTitle cfg openai sid w) = Inr None \<and>
            db (fst (generateTitle cfg openai sid w)) = db w)"
proof -
  have a: "getSession (db (updateTitle sid (Some t) w)) sid
           = Some (s\<lparr> sess_title := t, sess_updated_at := clock w \<rparr>)"
    using assms by (simp add: updateTitle_def getSession_updateSession title_only)
  have b: "upd_updateActivity u = Some False \<longrightarrow>
            (\<exists>s'. getSession (db (updateSession sid u w)) sid = Some s' \<and>
                  sess_last_activity_at s' = sess_last_activity_at s \<and>
                  sess_updated_at s' = clock w)"
    using assms
    by (simp add: getSession_updateSession apply_updates_def Let_def split: option.splits)
  note c = generateTitle_outcome [OF assms, of cfg openai]
  have d: "(\<forall>req. openai req = Inl err) \<longrightarrow>
            snd (generateTitle cfg openai sid w) = Inr None \<and>
            db (fst (generateTitle cfg openai sid w)) = db w"
  proof
    assume f: "\<forall>req. openai req = Inl err"
    from generateTitle_backend_fails [OF f, of cfg sid w] c
    show "snd (generateTitle cfg openai sid w) = Inr None \<and>
            db (fst (generateTitle cfg openai sid w)) = db w"
      by (cases "generateTitle cfg openai sid w") auto
  qed
  from a b c d show ?thesis by blast
qed

lemma clean_title_example: "clean_title ''A summary.'' = ''A summary''"
  by (simp add: clean_title_def trim_def is_space_def)

lemma page_one_turn:
  "SessionService_getMessages (mk_world one_turn (store_of one_turn) t) 7 2 None
     = Inr (map (load_view (store_of one_turn) 7) one_turn)"
  by (simp add: SessionService_getMessages_def getMessages_def Let_def mk_world_def
      one_turn_def mk_row_def)

lemma first_user_one_turn:
  "find (\<lambda>m. mv_role m = ''user'') (map (load_view (store_of one_turn) 7) one_turn)
     = Some (load_view (store_of one_turn) 7 (mk_row 100 ''user'' 10))"
  by (simp add: one_turn_def load_view_def store_of_def mk_row_def mk_file_def getMessage_def)

lemma generated_title:
  "snd (generateTitle session_config backend_up 7 (mk_world one_turn (store_of one_turn) 900000))
     = Inr (Some ''A summary'')"
  by (simp add: generateTitle_def page_one_turn first_user_one_turn Let_def backend_up_def
      clean_title_example)
     (simp add: one_turn_def)

theorem title_update_frame_witness:
  "getSession (db (mk_world one_turn (store_of one_turn) 900000)) 7 = Some demo_session \<and>
   getSession (db (updateTitle 7 (Some (Some ''Manual'')) (mk_world one_turn (store_of one_turn) 900000))) 7
     = Some (demo_session\<lparr> sess_title := Some ''Manual'', sess_updated_at := 900000 \<rparr>) \<and>
   upd_updateActivity keep_activity = Some False \<and>
   (\<forall>req. backend_down req = Inl ''timeout'') \<and>
   snd (generateTitle session_config backend_down 7
          (mk_world one_turn (store_of one_turn) 900000)) = Inr None \<and>
   db (fst (generateTitle session_config backend_down 7
          (mk_world one_turn (store_of one_turn) 900000)))
     = db (mk_world one_turn (store_of one_turn) 900000) \<and>
   snd (generateTitle session_config backend_up 7
          (mk_world one_turn (store_of one_turn) 900000)) = Inr (Some ''A summary'') \<and>
   getSession (db (fst (generateTitle session_config backend_up 7
          (mk_world one_turn (store_of one_turn) 900000)))) 7
     = Some (demo_session\<lparr> sess_title := Some ''A summary'', sess_updated_at := 900000 \<rparr>)"
proof -
  let ?w = "mk_world one_turn (store_of one_turn) 900000"
  have s: "getSession (db ?w) 7 = Some demo_session"
    by (simp add: getSession_def mk_world_def demo_session_def)
  have k: "upd_updateActivity keep_activity = Some False"
    by (simp add: keep_activity_def)
  have f: "\<forall>req. backend_down req = Inl ''timeout''"
    by (simp add: backend_down_def)
  have c: "clock ?w = 900000" by (simp add: mk_world_def)
  note down = title_update_frame [OF s, of "Some ''Manual''" keep_activity session_config
                 backend_down "''timeout''"]
  note up = title_update_frame [OF s, of "Some ''Manual''" keep_activity session_config
                 backend_up "''timeout''"]
  have g: "getSession (db (fst (generateTitle session_config backend_up 7 ?w))) 7
     = Some (demo_session\<lparr> sess_title := Some ''A summary'', sess_updated_at := 900000 \<rparr>)"
    using up generated_title
    by (cases "generateTitle session_config backend_up 7 ?w") (auto simp: c)
  from down s k f g generated_title show ?thesis
    by (simp add: c)
qed

end
